theory Spec2Isabelle
  imports Complex_Main
begin

section \<open>Transaction normalisation of the Bitcoin mempool app\<close>

text \<open>
  The two API routes \<^verbatim>\<open>src/app/api/get-bitcoin-node/route.ts\<close> (transaction
  lookup and mempool summary) and \<^verbatim>\<open>src/app/api/get-mempool-txs/route.ts\<close>
  (recent transactions) each normalise a transaction that came either from a node's
  JSON-RPC interface or from an explorer REST API. The model starts at the parsed
  JSON bodies; the HTTP transport is represented by the reply records below.
\<close>

subsection \<open>JavaScript values\<close>

text \<open>
  An optional field (\<^verbatim>\<open>f?: T\<close>) is an \<open>option\<close>, with \<open>None\<close> for \<^verbatim>\<open>undefined\<close>.
  A TypeScript \<^verbatim>\<open>number\<close> is an IEEE 754 double. A number of a parsed body is a
  finite double and is given by its value, a rational. The routes pass most of them on
  unchanged or compare them with 0, which is exact. The amounts and the fee are
  computed, by a product and by sums: they are values of \<open>double\<close>, every operation
  on them rounds as the hardware does, and a number of the body that enters them is
  read through \<open>read_double\<close>.
\<close>

type_synonym number = rat

text \<open>The values of a double. The two zeros are one value \<open>Finite 0\<close>: the routes
  cannot tell them apart (\<^verbatim>\<open>-0 === 0\<close>, \<^verbatim>\<open>-0 || 0\<close> is 0, and a sum that starts at 0
  is never \<^verbatim>\<open>-0\<close>).\<close>

datatype double = Finite rat | Infinity | NegInfinity | NaN

text \<open>The binary exponent of a positive rational \<open>x\<close>: the \<open>e\<close> with
  \<open>2 powi e \<le> x < 2 powi (e + 1)\<close>. For \<open>x = p / q\<close> in lowest terms it is the
  difference of the bit lengths of \<open>p\<close> and \<open>q\<close>, or one less.\<close>

function ilog2 :: "int \<Rightarrow> int" where
  "ilog2 n = (if n < 2 then 0 else 1 + ilog2 (n div 2))"
  by pat_completeness auto
termination
  by (relation "measure nat") auto

definition floor_log2 :: "rat \<Rightarrow> int" where
  "floor_log2 x =
     (let (p, q) = quotient_of x;
          d = ilog2 p - ilog2 q
      in if 2 powi d \<le> x then d else d - 1)"

text \<open>Rounding to the nearest integer, a tie going to the even one.\<close>

definition round_half_even :: "rat \<Rightarrow> int" where
  "round_half_even y =
     (let f = \<lfloor>y\<rfloor>; r = y - of_int f
      in if r < 1 / 2 then f
         else if r > 1 / 2 then f + 1
         else if even f then f else f + 1)"

text \<open>
  The double nearest to a rational (round to nearest, ties to even), which is the
  result of every arithmetic operation on doubles. With the exponent \<open>e\<close> of the
  magnitude, not below -1022 (the subnormal range), the doubles around it are the
  multiples of \<open>2 powi (e - 52)\<close>; the magnitude is rounded to \<open>m\<close> such units, with
  \<open>m \<le> 2 ^ 53\<close>. The result reaches \<open>2 powi 1024\<close>, and is an infinity, exactly when
  \<open>e\<close> is above 1023, or is 1023 and \<open>m\<close> was rounded up to \<open>2 ^ 53\<close>.
\<close>

definition round_double :: "rat \<Rightarrow> double" where
  "round_double x =
     (if x = 0 then Finite 0
      else
        (let a = \<bar>x\<bar>;
             e = max (floor_log2 a) (- 1022);
             ulp = 2 powi (e - 52);
             m = round_half_even (a / ulp)
         in if e > 1023 \<or> (e = 1023 \<and> m = 2 ^ 53)
            then (if x < 0 then NegInfinity else Infinity)
            else Finite (if x < 0 then - (of_int m * ulp) else of_int m * ulp)))"

text \<open>A number of the body as a double: the double nearest to it. That is the
  number itself when it is a double, and what \<^verbatim>\<open>JSON.parse\<close> makes of a decimal
  literal otherwise.\<close>

definition read_double :: "number \<Rightarrow> double" where
  "read_double v = round_double v"

text \<open>\<^verbatim>\<open>d * 1e8\<close>, and \<^verbatim>\<open>a + b\<close> and \<^verbatim>\<open>a - b\<close> on doubles.\<close>

fun times_1e8 :: "double \<Rightarrow> double" where
  "times_1e8 (Finite x) = round_double (x * 100000000)"
| "times_1e8 Infinity = Infinity"
| "times_1e8 NegInfinity = NegInfinity"
| "times_1e8 NaN = NaN"


fun add_double :: "double \<Rightarrow> double \<Rightarrow> double" where
  "add_double (Finite x) (Finite y) = round_double (x + y)"
| "add_double NaN b = NaN"
| "add_double a NaN = NaN"
| "add_double Infinity NegInfinity = NaN"
| "add_double NegInfinity Infinity = NaN"
| "add_double Infinity b = Infinity"
| "add_double a Infinity = Infinity"
| "add_double NegInfinity b = NegInfinity"
| "add_double a NegInfinity = NegInfinity"

fun negate_double :: "double \<Rightarrow> double" where
  "negate_double (Finite x) = Finite (- x)"
| "negate_double Infinity = NegInfinity"
| "negate_double NegInfinity = Infinity"
| "negate_double NaN = NaN"

definition sub_double :: "double \<Rightarrow> double \<Rightarrow> double" where
  "sub_double a b = add_double a (negate_double b)"

text \<open>\<^verbatim>\<open>d >= 0\<close>, the truthiness of a double, and \<^verbatim>\<open>d || 0\<close>.\<close>

fun ge_zero :: "double \<Rightarrow> bool" where
  "ge_zero (Finite x) = (0 \<le> x)"
| "ge_zero Infinity = True"
| "ge_zero NegInfinity = False"
| "ge_zero NaN = False"

fun truthy_double :: "double \<Rightarrow> bool" where
  "truthy_double (Finite x) = (x \<noteq> 0)"
| "truthy_double NaN = False"
| "truthy_double d = True"

definition double_or_zero :: "double \<Rightarrow> double" where
  "double_or_zero d = (if truthy_double d then d else Finite 0)"

text \<open>\<^verbatim>\<open>x || 0\<close> on an optional number of the body that becomes an amount or the
  fee.\<close>

definition read_or_zero :: "number option \<Rightarrow> double" where
  "read_or_zero x = (case x of None \<Rightarrow> Finite 0 | Some v \<Rightarrow> double_or_zero (read_double v))"

text \<open>Truthiness of an optional string: \<^verbatim>\<open>undefined\<close> and the empty string are
  falsy. An optional number is falsy when it is \<^verbatim>\<open>undefined\<close> or 0.\<close>

definition truthy_str :: "string option \<Rightarrow> bool" where
  "truthy_str s = (case s of None \<Rightarrow> False | Some t \<Rightarrow> t \<noteq> [])"

text \<open>\<^verbatim>\<open>x || d\<close> on an optional number, \<^verbatim>\<open>a || b\<close> and \<^verbatim>\<open>s || undefined\<close> on
  optional strings, \<^verbatim>\<open>a || b\<close> on optional arrays (an array is always truthy).\<close>

definition num_or :: "number option \<Rightarrow> number \<Rightarrow> number" where
  "num_or x d = (case x of None \<Rightarrow> d | Some v \<Rightarrow> if v \<noteq> 0 then v else d)"

text \<open>\<^verbatim>\<open>x && x > 0\<close> on an optional number, as a condition.\<close>

definition truthy_and_positive :: "number option \<Rightarrow> bool" where
  "truthy_and_positive x = (case x of None \<Rightarrow> False | Some v \<Rightarrow> v \<noteq> 0 \<and> v > 0)"

definition str_or :: "string option \<Rightarrow> string option \<Rightarrow> string option" where
  "str_or a b = (if truthy_str a then a else b)"

definition str_or_undefined :: "string option \<Rightarrow> string option" where
  "str_or_undefined s = str_or s None"

definition arr_or :: "'a list option \<Rightarrow> 'a list option \<Rightarrow> 'a list option" where
  "arr_or a b = (case a of Some xs \<Rightarrow> Some xs | None \<Rightarrow> b)"

text \<open>\<^verbatim>\<open>Number(d.toFixed(0))\<close>: the nearest integer, a tie going away from zero; an
  infinity and NaN print as such and are read back. The integer is a double again:
  below \<open>2 ^ 52\<close> every integer is one, and from there on \<open>d\<close> is an integer itself
  (from 1e21 on \<^verbatim>\<open>toFixed\<close> prints the number in exponent form, which reads back
  as \<open>d\<close>).\<close>

definition toFixed0 :: "double \<Rightarrow> double" where
  "toFixed0 d =
     (case d of
        Finite x \<Rightarrow>
          Finite (if x < 0 then - of_int \<lfloor>- x + 1 / 2\<rfloor> else of_int \<lfloor>x + 1 / 2\<rfloor>)
      | _ \<Rightarrow> d)"

text \<open>\<^verbatim>\<open>Number((v * 1e8).toFixed(0))\<close>: the product is rounded to a double first.\<close>

definition toSatoshis :: "number \<Rightarrow> double" where
  "toSatoshis v = toFixed0 (times_1e8 (read_double v))"

text \<open>\<^verbatim>\<open>Math.ceil(n / 2)\<close> for a string length \<open>n\<close>.\<close>

definition ceil_half :: "nat \<Rightarrow> nat" where
  "ceil_half n = nat \<lceil>(of_nat n :: rat) / 2\<rceil>"

text \<open>\<^verbatim>\<open>s.split(c)\<close> for a one-character separator: the pieces between the
  occurrences of \<open>c\<close>; the empty string gives one empty piece.\<close>

fun split_on :: "char \<Rightarrow> string \<Rightarrow> string list" where
  "split_on c [] = [[]]"
| "split_on c (x # xs) =
     (if x = c then [] # split_on c xs
      else (case split_on c xs of
              [] \<Rightarrow> [[x]]
            | w # ws \<Rightarrow> (x # w) # ws))"

text \<open>\<^verbatim>\<open>xs[i]\<close>: \<^verbatim>\<open>undefined\<close> out of range.\<close>

fun at_index :: "'a list \<Rightarrow> nat \<Rightarrow> 'a option" where
  "at_index [] i = None"
| "at_index (x # xs) 0 = Some x"
| "at_index (x # xs) (Suc i) = at_index xs i"

subsection \<open>Hex and text decoding of the runtime\<close>

text \<open>
  \<^verbatim>\<open>Buffer.from(s, 'hex')\<close> of Node.js reads the string two characters at a time and
  stops, keeping the bytes read so far, at the first pair that is not two hex digits
  or when fewer than two characters remain. It does not throw on a string argument.
  A byte is a \<open>char\<close>.
\<close>

definition unhex :: "char \<Rightarrow> nat option" where
  "unhex c =
     (let n = of_char c :: nat in
      if 48 \<le> n \<and> n \<le> 57 then Some (n - 48)
      else if 97 \<le> n \<and> n \<le> 102 then Some (n - 87)
      else if 65 \<le> n \<and> n \<le> 70 then Some (n - 55)
      else None)"

fun hex_bytes :: "string \<Rightarrow> char list" where
  "hex_bytes (a # b # rest) =
     (case (unhex a, unhex b) of
        (Some hi, Some lo) \<Rightarrow> char_of (16 * hi + lo) # hex_bytes rest
      | _ \<Rightarrow> [])"
| "hex_bytes _ = []"

text \<open>The result of a \<^verbatim>\<open>try\<close> block: \<open>Inl\<close> is a thrown exception.\<close>

datatype js_exception = TypeError

definition Buffer_from_hex :: "string \<Rightarrow> js_exception + char list" where
  "Buffer_from_hex s = Inr (hex_bytes s)"

text \<open>
  \<^verbatim>\<open>buffer.toString('utf8').replace(/[^\x20-\x7E]/g, '')\<close>. The UTF-8 decoder maps a
  byte below 0x80 to the code unit of the same value, wherever it stands, and every
  other byte, alone or in a multi-byte sequence, well-formed or not, to code units
  from 0x80 upwards (U+FFFD for a malformed sequence). The replacement deletes every
  code unit outside 0x20..0x7E, so the composition keeps exactly the bytes in that
  range, in order.
\<close>

definition printable :: "char \<Rightarrow> bool" where
  "printable c = (32 \<le> (of_char c :: nat) \<and> (of_char c :: nat) \<le> 126)"

definition utf8_printable :: "char list \<Rightarrow> string" where
  "utf8_printable buffer = filter printable buffer"

subsection \<open>Raw payloads\<close>

text \<open>
  The interfaces \<^verbatim>\<open>RawInput\<close>, \<^verbatim>\<open>RawOutput\<close> and \<^verbatim>\<open>RawTransaction\<close> of the two
  routes. Field names carry a prefix for their record, since several interfaces share
  names: \<open>spk_\<close> for \<^verbatim>\<open>scriptPubKey\<close>, \<open>po_\<close> for \<^verbatim>\<open>prevout\<close>, \<open>ri_\<close>, \<open>ro_\<close>, \<open>st_\<close> for
  \<^verbatim>\<open>status\<close> and \<open>rt_\<close> for the transaction.
\<close>

record ScriptPubKey =
  spk_address :: "string option"
  spk_type :: "string option"
  spk_asm :: "string option"

record Prevout =
  po_scriptPubKey :: "ScriptPubKey option"
  po_scriptpubkey_address :: "string option"
  po_scriptpubkey_type :: "string option"
  po_value :: "number option"

record RawInput =
  ri_prevout :: "Prevout option"
  ri_txinwitness :: "string list option"
  ri_witness :: "string list option"

record RawOutput =
  ro_scriptPubKey :: "ScriptPubKey option"
  ro_scriptpubkey_address :: "string option"
  ro_scriptpubkey_type :: "string option"
  ro_scriptpubkey_asm :: "string option"
  ro_value :: "number option"

record TxStatus =
  st_confirmed :: bool
  st_block_height :: "number option"
  st_confirmations :: "number option"

record RawTransaction =
  rt_txid :: string
  rt_fee :: "number option"
  rt_size :: "number option"
  rt_vin :: "RawInput list"
  rt_vout :: "RawOutput list"
  rt_confirmations :: "number option"
  rt_version :: "number option"
  rt_locktime :: "number option"
  rt_blockheight :: "number option"
  rt_status :: "TxStatus option"

text \<open>The result of \<^verbatim>\<open>getmempoolentry\<close>, and an entry of \<^verbatim>\<open>getrawmempool\<close>.\<close>

record MempoolEntry =
  me_fee :: "number option"
  me_vsize :: "number option"

text \<open>A fetched and parsed reply: \<^verbatim>\<open>response.ok\<close>, \<^verbatim>\<open>response.status\<close>, whether
  the body's \<^verbatim>\<open>error\<close> is truthy, and the body's \<^verbatim>\<open>result\<close>.\<close>

record 'a Reply =
  reply_ok :: bool
  reply_status :: nat
  reply_error :: bool
  reply_result :: "'a option"

subsection \<open>Normalised records\<close>

record TxInput =
  in_address :: "string option"
  in_amount :: double
  in_scriptType :: "string option"

record TxOutput =
  out_address :: "string option"
  out_amount :: double
  out_scriptType :: "string option"
  out_opReturn :: "string option"

record Witness =
  w_count :: nat
  w_size :: nat

record TransactionResponse =
  tr_txid :: string
  tr_fee :: double
  tr_size :: number
  tr_status :: string
  tr_confirmations :: number
  tr_version :: number
  tr_locktime :: number
  tr_blockheight :: "number option"
  tr_walletType :: string
  tr_witness :: Witness
  tr_inputs :: "TxInput list"
  tr_outputs :: "TxOutput list"
  tr_source :: string

record MempoolStats =
  ms_count :: number
  ms_total_fee :: number
  ms_vsize :: number
  ms_source :: string

text \<open>What a route answers instead of a record: the 404 reply, or the exception
  that its \<^verbatim>\<open>catch\<close> turns into an error reply.\<close>

datatype ApiError = NotFound string | HttpFailure nat | InvalidResponse

subsection \<open>The parts shared by the four normalisation paths\<close>

text \<open>
  Each route repeats the same blocks inline for its RPC branch and its explorer
  branch; a block that is the same text in several places is one definition here.
\<close>

text \<open>
  The OP_RETURN block of every \<^verbatim>\<open>vout.map\<close> callback, given the script type and the
  disassembly that the branch reads:
  \<^verbatim>\<open>
  let opReturn: string | undefined;
  if (type === 'nulldata' && asm) {
    const asmParts = asm.split(' ');
    if (asmParts[0] === 'OP_RETURN' && asmParts[1]) {
      try {
        const hex = asmParts[1];
        const buffer = Buffer.from(hex, 'hex');
        opReturn = buffer.toString('utf8').replace(/[^\x20-\x7E]/g, '') || hex;
      } catch {
        opReturn = asm;
      }
    }
  }
  \<close>
\<close>

definition decode_payload :: "string \<Rightarrow> string \<Rightarrow> string" where
  "decode_payload asm hex =
     (case Buffer_from_hex hex of
        Inr buffer \<Rightarrow>
          (let text = utf8_printable buffer in if text \<noteq> [] then text else hex)
      | Inl e \<Rightarrow> asm)"

definition opReturn_of :: "string option \<Rightarrow> string option \<Rightarrow> string option" where
  "opReturn_of ty asm_opt =
     (case asm_opt of
        None \<Rightarrow> None
      | Some asm \<Rightarrow>
          if ty = Some ''nulldata'' \<and> asm \<noteq> [] then
            (let asmParts = split_on CHR '' '' asm in
             if at_index asmParts 0 = Some ''OP_RETURN'' \<and> truthy_str (at_index asmParts 1)
             then (case at_index asmParts 1 of
                     Some hex \<Rightarrow> Some (decode_payload asm hex)
                   | None \<Rightarrow> None)
             else None)
          else None)"

text \<open>The two \<^verbatim>\<open>vin.reduce\<close> calls, given the witness stack each input contributes
  (\<open>None\<close> when the input has none).\<close>

definition witness_count :: "string list option list \<Rightarrow> nat" where
  "witness_count stacks =
     foldl (\<lambda>sum stack. sum + (case stack of None \<Rightarrow> 0 | Some items \<Rightarrow> length items)) 0 stacks"

definition witness_size :: "string list option list \<Rightarrow> nat" where
  "witness_size stacks =
     foldl (\<lambda>sum stack.
              case stack of
                Some items \<Rightarrow> sum + ceil_half (length (concat items))
              | None \<Rightarrow> sum) 0 stacks"

definition witness_of :: "string list option list \<Rightarrow> Witness" where
  "witness_of stacks = \<lparr>w_count = witness_count stacks, w_size = witness_size stacks\<rparr>"

text \<open>The fee of a mempool entry: \<^verbatim>\<open>Number((entry.fee * 1e8).toFixed(0)) || 0\<close>; a
  missing \<^verbatim>\<open>fee\<close> makes the product NaN, which \<^verbatim>\<open>|| 0\<close> turns into 0.\<close>

definition entry_fee :: "MempoolEntry \<Rightarrow> double" where
  "entry_fee e =
     (case me_fee e of None \<Rightarrow> Finite 0 | Some f \<Rightarrow> double_or_zero (toSatoshis f))"

text \<open>
  The fallback of the RPC branches:
  \<^verbatim>\<open>
  if (fee === 0 && inputs.length > 0 && outputs.length > 0) {
    const inputTotal = inputs.reduce((sum, input) => sum + input.amount, 0);
    const outputTotal = outputs.reduce((sum, output) => sum + output.amount, 0);
    fee = inputTotal - outputTotal >= 0 ? inputTotal - outputTotal : 0;
  }
  \<close>
\<close>

definition fee_fallback :: "double \<Rightarrow> TxInput list \<Rightarrow> TxOutput list \<Rightarrow> double" where
  "fee_fallback fee inputs outputs =
     (if fee = Finite 0 \<and> length inputs > 0 \<and> length outputs > 0 then
        (let inputTotal =
               foldl (\<lambda>sum input. add_double sum (in_amount input)) (Finite 0) inputs;
             outputTotal =
               foldl (\<lambda>sum output. add_double sum (out_amount output)) (Finite 0) outputs
         in if ge_zero (sub_double inputTotal outputTotal)
            then sub_double inputTotal outputTotal else Finite 0)
      else fee)"

text \<open>\<^verbatim>\<open>Array.from(new Set(xs))\<close>: the elements in the order of their first
  occurrence.\<close>

fun set_order :: "'a list \<Rightarrow> 'a list \<Rightarrow> 'a list" where
  "set_order seen [] = []"
| "set_order seen (x # xs) =
     (if x \<in> set seen then set_order seen xs else x # set_order (x # seen) xs)"

definition scriptTypes :: "TxInput list \<Rightarrow> TxOutput list \<Rightarrow> string list" where
  "scriptTypes inputs outputs =
     List.map_filter (\<lambda>ty. ty)
       (set_order [] (map in_scriptType inputs @ map out_scriptType outputs))"

definition walletType_of :: "string list \<Rightarrow> string" where
  "walletType_of types =
     (if ''p2tr'' \<in> set types then ''Taproot''
      else if ''v0_p2wpkh'' \<in> set types \<or> ''v0_p2wsh'' \<in> set types then ''SegWit''
      else if ''p2pkh'' \<in> set types \<or> ''p2sh'' \<in> set types then ''Legacy''
      else ''Unknown'')"

text \<open>Optional chaining \<^verbatim>\<open>input.prevout?.scriptPubKey?.f\<close> and
  \<^verbatim>\<open>output.scriptPubKey?.f\<close>.\<close>

definition prevout_spk :: "RawInput \<Rightarrow> (ScriptPubKey \<Rightarrow> 'a option) \<Rightarrow> 'a option" where
  "prevout_spk input f = Option.bind (Option.bind (ri_prevout input) po_scriptPubKey) f"

definition prevout_field :: "RawInput \<Rightarrow> (Prevout \<Rightarrow> 'a option) \<Rightarrow> 'a option" where
  "prevout_field input f = Option.bind (ri_prevout input) f"

definition output_spk :: "RawOutput \<Rightarrow> (ScriptPubKey \<Rightarrow> 'a option) \<Rightarrow> 'a option" where
  "output_spk output f = Option.bind (ro_scriptPubKey output) f"

text \<open>\<^verbatim>\<open>input.prevout?.value ? Number((input.prevout.value * 1e8).toFixed(0)) : 0\<close>.\<close>

definition scaled_input_amount :: "RawInput \<Rightarrow> double" where
  "scaled_input_amount input =
     (case prevout_field input po_value of
        None \<Rightarrow> Finite 0
      | Some v \<Rightarrow> if truthy_double (read_double v) then toSatoshis v else Finite 0)"

text \<open>\<^verbatim>\<open>Number(((output.value ?? 0) * 1e8).toFixed(0)) || 0\<close>.\<close>

definition scaled_output_amount :: "RawOutput \<Rightarrow> double" where
  "scaled_output_amount output =
     double_or_zero (toSatoshis (case ro_value output of None \<Rightarrow> 0 | Some v \<Rightarrow> v))"

subsection \<open>Node RPC branch of the lookup route\<close>

text \<open>The callbacks of \<^verbatim>\<open>tx.vin.map\<close> and \<^verbatim>\<open>tx.vout.map\<close>
  (get-bitcoin-node, lines 158 to 184).\<close>

definition rpc_input :: "RawInput \<Rightarrow> TxInput" where
  "rpc_input input =
     \<lparr>in_address = str_or_undefined (prevout_spk input spk_address),
      in_amount = scaled_input_amount input,
      in_scriptType = str_or_undefined (prevout_spk input spk_type)\<rparr>"

definition rpc_lookup_output :: "RawOutput \<Rightarrow> TxOutput" where
  "rpc_lookup_output output =
     \<lparr>out_address = str_or_undefined (output_spk output spk_address),
      out_amount = scaled_output_amount output,
      out_scriptType = str_or_undefined (output_spk output spk_type),
      out_opReturn = opReturn_of (output_spk output spk_type) (output_spk output spk_asm)\<rparr>"

text \<open>Lines 151 to 230, from the transaction \<open>tx\<close> and the \<open>fee\<close> and \<open>size\<close> (here
  \<open>vsize\<close>) taken from the mempool entry.\<close>

definition normalize_rpc_lookup ::
  "string \<Rightarrow> string \<Rightarrow> double \<Rightarrow> number \<Rightarrow> RawTransaction \<Rightarrow> TransactionResponse" where
  "normalize_rpc_lookup source txid fee vsize tx =
     (let inputs = map rpc_input (rt_vin tx);
          outputs = map rpc_lookup_output (rt_vout tx)
      in \<lparr>tr_txid = txid,
          tr_fee = fee_fallback fee inputs outputs,
          tr_size = vsize,
          tr_status = (if truthy_and_positive (rt_confirmations tx)
                       then ''confirmed'' else ''pending''),
          tr_confirmations = num_or (rt_confirmations tx) 0,
          tr_version = num_or (rt_version tx) 0,
          tr_locktime = num_or (rt_locktime tx) 0,
          tr_blockheight = rt_blockheight tx,
          tr_walletType = walletType_of (scriptTypes inputs outputs),
          tr_witness = witness_of (map ri_txinwitness (rt_vin tx)),
          tr_inputs = inputs,
          tr_outputs = outputs,
          tr_source = source\<rparr>)"

text \<open>Lines 105 to 128: the mempool entry counts when its reply is ok and has a
  result; the fee starts at 0 and is replaced by the entry's.\<close>

definition mempool_entry_of :: "MempoolEntry Reply \<Rightarrow> MempoolEntry option" where
  "mempool_entry_of mempoolResponse =
     (if reply_ok mempoolResponse then reply_result mempoolResponse else None)"

definition authoritative_fee :: "MempoolEntry option \<Rightarrow> double" where
  "authoritative_fee entry = (case entry of None \<Rightarrow> Finite 0 | Some e \<Rightarrow> entry_fee e)"

text \<open>Lines 104 to 236: a failed transaction reply throws, a missing transaction
  answers 404.\<close>

definition lookup_rpc ::
  "string \<Rightarrow> string \<Rightarrow> MempoolEntry Reply \<Rightarrow> RawTransaction Reply
     \<Rightarrow> ApiError + TransactionResponse" where
  "lookup_rpc source txid mempoolResponse txResponse =
     (let entry = mempool_entry_of mempoolResponse;
          fee = authoritative_fee entry;
          vsize = (case entry of None \<Rightarrow> 0 | Some e \<Rightarrow> num_or (me_vsize e) 0)
      in if \<not> reply_ok txResponse then Inl (HttpFailure (reply_status txResponse))
         else (case reply_result txResponse of
                 None \<Rightarrow> Inl (NotFound txid)
               | Some tx \<Rightarrow>
                   if reply_error txResponse then Inl (NotFound txid)
                   else Inr (normalize_rpc_lookup source txid fee vsize tx)))"

subsection \<open>Explorer branch of the lookup route\<close>

text \<open>The callbacks of \<^verbatim>\<open>data.vin.map\<close> and \<^verbatim>\<open>data.vout.map\<close>
  (get-bitcoin-node, lines 252 to 280).\<close>

definition explorer_lookup_input :: "RawInput \<Rightarrow> TxInput" where
  "explorer_lookup_input input =
     \<lparr>in_address =
        str_or_undefined
          (str_or (prevout_field input po_scriptpubkey_address) (prevout_spk input spk_address)),
      in_amount = scaled_input_amount input,
      in_scriptType =
        str_or_undefined
          (str_or (prevout_field input po_scriptpubkey_type) (prevout_spk input spk_type))\<rparr>"

definition explorer_lookup_output :: "RawOutput \<Rightarrow> TxOutput" where
  "explorer_lookup_output output =
     \<lparr>out_address =
        str_or_undefined
          (str_or (ro_scriptpubkey_address output) (output_spk output spk_address)),
      out_amount = scaled_output_amount output,
      out_scriptType =
        str_or_undefined (str_or (ro_scriptpubkey_type output) (output_spk output spk_type)),
      out_opReturn = opReturn_of (ro_scriptpubkey_type output) (ro_scriptpubkey_asm output)\<rparr>"

text \<open>Optional chaining \<^verbatim>\<open>data.status?.f\<close>.\<close>

definition status_field :: "RawTransaction \<Rightarrow> (TxStatus \<Rightarrow> 'a option) \<Rightarrow> 'a option" where
  "status_field tx f = Option.bind (rt_status tx) f"

definition status_confirmed :: "RawTransaction \<Rightarrow> bool" where
  "status_confirmed tx = (case rt_status tx of None \<Rightarrow> False | Some st \<Rightarrow> st_confirmed st)"

text \<open>Lines 250 to 322.\<close>

definition normalize_explorer_lookup :: "string \<Rightarrow> RawTransaction \<Rightarrow> TransactionResponse" where
  "normalize_explorer_lookup source data =
     (let inputs = map explorer_lookup_input (rt_vin data);
          outputs = map explorer_lookup_output (rt_vout data)
      in \<lparr>tr_txid = rt_txid data,
          tr_fee = read_or_zero (rt_fee data),
          tr_size = num_or (rt_size data) 0,
          tr_status = (if status_confirmed data then ''confirmed'' else ''pending''),
          tr_confirmations = num_or (status_field data st_confirmations) 0,
          tr_version = num_or (rt_version data) 0,
          tr_locktime = num_or (rt_locktime data) 0,
          tr_blockheight = status_field data st_block_height,
          tr_walletType = walletType_of (scriptTypes inputs outputs),
          tr_witness =
            witness_of (map (\<lambda>input. arr_or (ri_witness input) (ri_txinwitness input))
                          (rt_vin data)),
          tr_inputs = inputs,
          tr_outputs = outputs,
          tr_source = source\<rparr>)"

text \<open>Lines 238 to 328: a reply that is not ok answers 404.\<close>

definition lookup_explorer ::
  "string \<Rightarrow> string \<Rightarrow> bool \<Rightarrow> RawTransaction \<Rightarrow> ApiError + TransactionResponse" where
  "lookup_explorer source txid response_ok data =
     (if \<not> response_ok then Inl (NotFound txid)
      else Inr (normalize_explorer_lookup source data))"

subsection \<open>Node RPC branch of the recent-transactions route\<close>

text \<open>The \<^verbatim>\<open>vout.map\<close> callback (get-mempool-txs, lines 136 to 156); the
  \<^verbatim>\<open>vin.map\<close> callback is \<open>rpc_input\<close>. The amount is
  \<^verbatim>\<open>output.value !== undefined ? Number((output.value * 1e8).toFixed(0)) : 0\<close>.\<close>

definition rpc_recent_output :: "RawOutput \<Rightarrow> TxOutput" where
  "rpc_recent_output output =
     \<lparr>out_address = str_or_undefined (output_spk output spk_address),
      out_amount = (case ro_value output of None \<Rightarrow> Finite 0 | Some v \<Rightarrow> toSatoshis v),
      out_scriptType = str_or_undefined (output_spk output spk_type),
      out_opReturn = opReturn_of (output_spk output spk_type) (output_spk output spk_asm)\<rparr>"

text \<open>Lines 128 to 210: the body of the loop once the transaction is there;
  \<open>entry\<close> is \<^verbatim>\<open>mempoolData.result[txid]\<close>.\<close>

definition normalize_rpc_recent ::
  "string \<Rightarrow> string \<Rightarrow> MempoolEntry option \<Rightarrow> RawTransaction \<Rightarrow> TransactionResponse" where
  "normalize_rpc_recent source txid entry tx =
     (let inputs = map rpc_input (rt_vin tx);
          outputs = map rpc_recent_output (rt_vout tx);
          fee = authoritative_fee entry;
          is_confirmed = truthy_and_positive (rt_confirmations tx)
      in \<lparr>tr_txid = txid,
          tr_fee = fee_fallback fee inputs outputs,
          tr_size = num_or (rt_size tx) 0,
          tr_status = (if is_confirmed then ''confirmed'' else ''pending''),
          tr_confirmations = num_or (rt_confirmations tx) 0,
          tr_version = num_or (rt_version tx) 0,
          tr_locktime = num_or (rt_locktime tx) 0,
          tr_blockheight = (if is_confirmed then status_field tx st_block_height else None),
          tr_walletType = walletType_of (scriptTypes inputs outputs),
          tr_witness = witness_of (map ri_txinwitness (rt_vin tx)),
          tr_inputs = inputs,
          tr_outputs = outputs,
          tr_source = source\<rparr>)"

text \<open>Lines 114 to 215: one round of the loop over the transaction ids; \<open>None\<close> is
  \<^verbatim>\<open>continue\<close>, and \<open>mempool\<close> is \<^verbatim>\<open>mempoolData.result\<close>.\<close>

definition recent_rpc_step ::
  "string \<Rightarrow> (string \<rightharpoonup> MempoolEntry) \<Rightarrow> string \<Rightarrow> RawTransaction Reply
     \<Rightarrow> TransactionResponse option" where
  "recent_rpc_step source mempool txid txResponse =
     (if \<not> reply_ok txResponse then None
      else (case reply_result txResponse of
              None \<Rightarrow> None
            | Some tx \<Rightarrow>
                if reply_error txResponse then None
                else Some (normalize_rpc_recent source txid (mempool txid) tx)))"

subsection \<open>Explorer branch of the recent-transactions route\<close>

text \<open>The callbacks of \<^verbatim>\<open>tx.vin.map\<close> and \<^verbatim>\<open>tx.vout.map\<close>
  (get-mempool-txs, lines 230 to 256).\<close>

definition explorer_recent_input :: "RawInput \<Rightarrow> TxInput" where
  "explorer_recent_input input =
     \<lparr>in_address = str_or_undefined (prevout_field input po_scriptpubkey_address),
      in_amount = read_or_zero (prevout_field input po_value),
      in_scriptType = str_or_undefined (prevout_field input po_scriptpubkey_type)\<rparr>"

definition explorer_recent_output :: "RawOutput \<Rightarrow> TxOutput" where
  "explorer_recent_output output =
     \<lparr>out_address = str_or_undefined (ro_scriptpubkey_address output),
      out_amount = read_or_zero (ro_value output),
      out_scriptType = str_or_undefined (ro_scriptpubkey_type output),
      out_opReturn = opReturn_of (ro_scriptpubkey_type output) (ro_scriptpubkey_asm output)\<rparr>"

text \<open>Lines 229 to 299: the callback of \<^verbatim>\<open>data.map\<close>.\<close>

definition normalize_explorer_recent :: "string \<Rightarrow> RawTransaction \<Rightarrow> TransactionResponse" where
  "normalize_explorer_recent source tx =
     (let inputs = map explorer_recent_input (rt_vin tx);
          outputs = map explorer_recent_output (rt_vout tx)
      in \<lparr>tr_txid = rt_txid tx,
          tr_fee = read_or_zero (rt_fee tx),
          tr_size = num_or (rt_size tx) 0,
          tr_status = (if status_confirmed tx then ''confirmed'' else ''pending''),
          tr_confirmations = (if status_confirmed tx then 1 else 0),
          tr_version = num_or (rt_version tx) 0,
          tr_locktime = num_or (rt_locktime tx) 0,
          tr_blockheight = status_field tx st_block_height,
          tr_walletType = walletType_of (scriptTypes inputs outputs),
          tr_witness = witness_of (map ri_witness (rt_vin tx)),
          tr_inputs = inputs,
          tr_outputs = outputs,
          tr_source = source\<rparr>)"

text \<open>Lines 220 to 301.\<close>

definition recent_explorer ::
  "string \<Rightarrow> bool \<Rightarrow> nat \<Rightarrow> RawTransaction list \<Rightarrow> ApiError + TransactionResponse list" where
  "recent_explorer source response_ok response_status data =
     (if \<not> response_ok then Inl (HttpFailure response_status)
      else Inr (map (normalize_explorer_recent source) data))"

subsection \<open>Mempool summary\<close>

text \<open>The body of a summary reply: \<^verbatim>\<open>result\<close> with \<^verbatim>\<open>size\<close> and \<^verbatim>\<open>bytes\<close> from
  the node's \<^verbatim>\<open>getmempoolinfo\<close>, or \<^verbatim>\<open>count\<close>, \<^verbatim>\<open>total_fee\<close> and \<^verbatim>\<open>vsize\<close> from
  the explorer.\<close>

record MempoolInfo =
  mi_size :: "number option"
  mi_bytes :: "number option"

record SummaryData =
  sd_result :: "MempoolInfo option"
  sd_count :: "number option"
  sd_total_fee :: "number option"
  sd_vsize :: "number option"

text \<open>get-bitcoin-node, lines 344 to 370; \<open>data = None\<close> is a body that is
  \<^verbatim>\<open>null\<close>.\<close>

definition mempool_summary ::
  "string \<Rightarrow> bool \<Rightarrow> bool \<Rightarrow> nat \<Rightarrow> SummaryData option \<Rightarrow> ApiError + MempoolStats" where
  "mempool_summary source isRpc response_ok response_status data =
     (if \<not> response_ok then Inl (HttpFailure response_status)
      else (case data of
              None \<Rightarrow> Inl InvalidResponse
            | Some d \<Rightarrow>
                if isRpc then
                  (case sd_result d of
                     None \<Rightarrow> Inl InvalidResponse
                   | Some mempoolInfo \<Rightarrow>
                       Inr \<lparr>ms_count = num_or (mi_size mempoolInfo) 0,
                            ms_total_fee = 0,
                            ms_vsize = num_or (mi_bytes mempoolInfo) 0,
                            ms_source = source\<rparr>)
                else
                  Inr \<lparr>ms_count = num_or (sd_count d) 0,
                       ms_total_fee = num_or (sd_total_fee d) 0,
                       ms_vsize = num_or (sd_vsize d) 0,
                       ms_source = source\<rparr>))"

subsection \<open>The witness byte size in the words of the specification\<close>

text \<open>The specification's reading of the byte size, for comparison with
  \<open>witness_size\<close>: every element of every stack is counted on its own, as
  \<^verbatim>\<open>ceil(hexLength / 2)\<close>, and the counts are added up.\<close>

definition spec_witness_bytes :: "string list option list \<Rightarrow> nat" where
  "spec_witness_bytes stacks =
     sum_list (map (\<lambda>stack. case stack of
                               None \<Rightarrow> 0
                             | Some items \<Rightarrow> sum_list (map (\<lambda>item. ceil_half (length item)) items))
                   stacks)"

subsection \<open>The fee in the words of the specification\<close>

text \<open>The specification's reading of the derived fee, for comparison with
  \<open>fee_fallback\<close>: the sum of the input amounts minus the sum of the output amounts
  as numbers, without rounding, and 0 when that is negative.\<close>

definition amount_value :: "double \<Rightarrow> rat" where
  "amount_value d = (case d of Finite x \<Rightarrow> x | _ \<Rightarrow> 0)"

definition spec_fee :: "TxInput list \<Rightarrow> TxOutput list \<Rightarrow> rat" where
  "spec_fee inputs outputs =
     max 0 (sum_list (map (\<lambda>input. amount_value (in_amount input)) inputs)
            - sum_list (map (\<lambda>output. amount_value (out_amount output)) outputs))"

text \<open>Amounts in satoshis as the specification's data model has them, non-negative
  integers, with a sum that a double still holds exactly (at most \<open>2 ^ 53\<close>).\<close>

definition safe_amount :: "double \<Rightarrow> bool" where
  "safe_amount d = (case d of Finite x \<Rightarrow> 0 \<le> x \<and> of_int \<lfloor>x\<rfloor> = x | _ \<Rightarrow> False)"

definition safe_amounts :: "double list \<Rightarrow> bool" where
  "safe_amounts ds = (list_all safe_amount ds \<and> sum_list (map amount_value ds) \<le> 2 ^ 53)"

subsection \<open>Splitting on whitespace, in the words of the specification\<close>

text \<open>The specification splits the disassembly on whitespace: its tokens are the
  maximal runs of characters other than space, tab, line feed, vertical tab, form feed
  and carriage return.\<close>

definition is_whitespace :: "char \<Rightarrow> bool" where
  "is_whitespace c = (c \<in> {CHR '' '', CHR 0x09, CHR 0x0A, CHR 0x0B, CHR 0x0C, CHR 0x0D})"

fun split_where :: "(char \<Rightarrow> bool) \<Rightarrow> string \<Rightarrow> string list" where
  "split_where sep [] = [[]]"
| "split_where sep (x # xs) =
     (if sep x then [] # split_where sep xs
      else (case split_where sep xs of
              [] \<Rightarrow> [[x]]
            | w # ws \<Rightarrow> (x # w) # ws))"

definition whitespace_tokens :: "string \<Rightarrow> string list" where
  "whitespace_tokens s = filter (\<lambda>w. w \<noteq> []) (split_where is_whitespace s)"

section \<open>Properties\<close>

subsection \<open>Auxiliary facts\<close>

lemma foldl_plus_sum_list:
  fixes a :: "'b::comm_monoid_add"
  shows "foldl (\<lambda>sum x. sum + f x) a xs = a + sum_list (map f xs)"
  by (induction xs arbitrary: a) (simp_all add: add.assoc)

lemma ceil_half_eq: "ceil_half n = (n + 1) div 2"
  unfolding ceil_half_def by linarith

lemma normalize_rpc_lookup_fields:
  "tr_inputs (normalize_rpc_lookup source txid fee vsize tx) = map rpc_input (rt_vin tx)"
  "tr_outputs (normalize_rpc_lookup source txid fee vsize tx) = map rpc_lookup_output (rt_vout tx)"
  "tr_fee (normalize_rpc_lookup source txid fee vsize tx) =
     fee_fallback fee (map rpc_input (rt_vin tx)) (map rpc_lookup_output (rt_vout tx))"
  by (simp_all add: normalize_rpc_lookup_def Let_def)

lemma normalize_rpc_recent_fields:
  "tr_inputs (normalize_rpc_recent source txid entry tx) = map rpc_input (rt_vin tx)"
  "tr_outputs (normalize_rpc_recent source txid entry tx) = map rpc_recent_output (rt_vout tx)"
  "tr_fee (normalize_rpc_recent source txid entry tx) =
     fee_fallback (authoritative_fee entry) (map rpc_input (rt_vin tx))
       (map rpc_recent_output (rt_vout tx))"
  by (simp_all add: normalize_rpc_recent_def Let_def)

lemma num_or_zero: "num_or x 0 = (case x of None \<Rightarrow> 0 | Some v \<Rightarrow> v)"
  by (simp add: num_or_def split: option.splits)

lemma set_set_order: "set (set_order seen xs) = set xs - set seen"
  by (induction xs arbitrary: seen) auto

lemma set_map_filter_id: "set (List.map_filter (\<lambda>t. t) xs) = {t. Some t \<in> set xs}"
  by (induction xs) (auto simp: map_filter_simps split: option.splits)

lemma set_scriptTypes:
  "set (scriptTypes inputs outputs) =
     {t. Some t \<in> in_scriptType ` set inputs \<union> out_scriptType ` set outputs}"
  by (simp add: scriptTypes_def set_set_order set_map_filter_id)

lemma normalizers_walletType:
  "tr_walletType (normalize_rpc_lookup source txid fee vsize tx) =
     walletType_of (scriptTypes (tr_inputs (normalize_rpc_lookup source txid fee vsize tx))
                                (tr_outputs (normalize_rpc_lookup source txid fee vsize tx)))"
  "tr_walletType (normalize_explorer_lookup source tx) =
     walletType_of (scriptTypes (tr_inputs (normalize_explorer_lookup source tx))
                                (tr_outputs (normalize_explorer_lookup source tx)))"
  "tr_walletType (normalize_rpc_recent source txid entry tx) =
     walletType_of (scriptTypes (tr_inputs (normalize_rpc_recent source txid entry tx))
                                (tr_outputs (normalize_rpc_recent source txid entry tx)))"
  "tr_walletType (normalize_explorer_recent source tx) =
     walletType_of (scriptTypes (tr_inputs (normalize_explorer_recent source tx))
                                (tr_outputs (normalize_explorer_recent source tx)))"
  by (simp_all add: normalize_rpc_lookup_def normalize_explorer_lookup_def
        normalize_rpc_recent_def normalize_explorer_recent_def Let_def)

lemma witness_count_sum:
  "witness_count stacks =
     sum_list (map (\<lambda>stack. case stack of None \<Rightarrow> 0 | Some items \<Rightarrow> length items) stacks)"
  by (simp add: witness_count_def foldl_plus_sum_list)

lemma witness_size_foldl:
  "foldl (\<lambda>sum stack. case stack of
                          Some items \<Rightarrow> sum + ceil_half (length (concat items))
                        | None \<Rightarrow> sum) a stacks =
     a + sum_list (map (\<lambda>stack. case stack of
                                   None \<Rightarrow> 0
                                 | Some items \<Rightarrow> ceil_half (length (concat items))) stacks)"
  by (induction stacks arbitrary: a) (simp_all split: option.splits)

lemma witness_size_sum:
  "witness_size stacks =
     sum_list (map (\<lambda>stack. case stack of
                               None \<Rightarrow> 0
                             | Some items \<Rightarrow> ceil_half (length (concat items))) stacks)"
  by (simp add: witness_size_def witness_size_foldl)

lemma even_length_concat:
  "\<forall>item\<in>set items. even (length item) \<Longrightarrow> even (length (concat items))"
  by (induction items) simp_all

lemma ceil_half_add_even: "even m \<Longrightarrow> ceil_half (m + n) = ceil_half m + ceil_half n"
  by (auto simp: ceil_half_eq elim!: evenE)

lemma ceil_half_concat_even:
  assumes "\<forall>item\<in>set items. even (length item)"
  shows "ceil_half (length (concat items)) = sum_list (map (\<lambda>item. ceil_half (length item)) items)"
  using assms
  by (induction items) (simp_all add: ceil_half_add_even, simp add: ceil_half_eq)

lemma witness_size_even:
  assumes "\<forall>stack\<in>set stacks. \<forall>items. stack = Some items \<longrightarrow> (\<forall>item\<in>set items. even (length item))"
  shows "witness_size stacks = spec_witness_bytes stacks"
  using assms
  by (induction stacks)
     (auto simp: witness_size_sum spec_witness_bytes_def ceil_half_concat_even split: option.splits)

lemma witness_count_zero:
  assumes "witness_count stacks = 0"
  shows "witness_size stacks = 0"
  using assms
  by (induction stacks)
     (auto simp: witness_count_sum witness_size_sum ceil_half_eq split: option.splits)

lemma normalizers_witness:
  "tr_witness (normalize_rpc_lookup source txid fee vsize tx) =
     witness_of (map ri_txinwitness (rt_vin tx))"
  "tr_witness (normalize_explorer_lookup source tx) =
     witness_of (map (\<lambda>input. arr_or (ri_witness input) (ri_txinwitness input)) (rt_vin tx))"
  "tr_witness (normalize_rpc_recent source txid entry tx) =
     witness_of (map ri_txinwitness (rt_vin tx))"
  "tr_witness (normalize_explorer_recent source tx) = witness_of (map ri_witness (rt_vin tx))"
  by (simp_all add: normalize_rpc_lookup_def normalize_explorer_lookup_def
        normalize_rpc_recent_def normalize_explorer_recent_def Let_def)

lemma decode_payload_ignores_asm:
  "decode_payload asm hex =
     (if utf8_printable (hex_bytes hex) \<noteq> [] then utf8_printable (hex_bytes hex) else hex)"
  by (simp add: decode_payload_def Buffer_from_hex_def Let_def)

lemma opReturn_of_Some_iff:
  "opReturn_of ty asm_opt = Some text \<longleftrightarrow>
     ty = Some ''nulldata''
     \<and> (\<exists>asm hex. asm_opt = Some asm
           \<and> at_index (split_on CHR '' '' asm) 0 = Some ''OP_RETURN''
           \<and> at_index (split_on CHR '' '' asm) (Suc 0) = Some hex \<and> hex \<noteq> []
           \<and> text = decode_payload asm hex)"
  by (cases asm_opt)
     (auto simp: opReturn_of_def Let_def truthy_str_def split: option.splits)

lemma toSatoshis_zero: "toSatoshis 0 = Finite 0"
proof -
  have "\<lfloor>(1::rat) / 2\<rfloor> = 0" by linarith
  then show ?thesis
    by (simp add: toSatoshis_def toFixed0_def read_double_def round_double_def)
qed

lemma explorer_unconfirmed_ordinary_payload:
  assumes "rt_status tx = Some st" and "\<not> st_confirmed st"
    and "st_block_height st = None" and "st_confirmations st = None"
  shows "tr_status (normalize_explorer_lookup source tx) = ''pending''"
    and "tr_confirmations (normalize_explorer_lookup source tx) = 0"
    and "tr_blockheight (normalize_explorer_lookup source tx) = None"
    and "tr_status (normalize_explorer_recent source tx) = ''pending''"
    and "tr_confirmations (normalize_explorer_recent source tx) = 0"
    and "tr_blockheight (normalize_explorer_recent source tx) = None"
  using assms
  by (simp_all add: normalize_explorer_recent_def normalize_explorer_lookup_def status_field_def
        status_confirmed_def num_or_zero Let_def)

lemma rpc_status_iff_confirmations:
  "tr_status (normalize_rpc_lookup source txid fee vsize tx) = ''confirmed''
     \<longleftrightarrow> tr_confirmations (normalize_rpc_lookup source txid fee vsize tx) > 0"
  "tr_status (normalize_rpc_recent source txid entry tx) = ''confirmed''
     \<longleftrightarrow> tr_confirmations (normalize_rpc_recent source txid entry tx) > 0"
  "tr_status (normalize_explorer_recent source tx) = ''confirmed''
     \<longleftrightarrow> tr_confirmations (normalize_explorer_recent source tx) > 0"
  by (auto simp: normalize_rpc_lookup_def normalize_rpc_recent_def normalize_explorer_recent_def
        Let_def num_or_def truthy_and_positive_def split: option.splits)

subsection \<open>Rounding to a double\<close>

text \<open>The exponent found by \<open>floor_log2\<close> is the binary exponent
  (\<open>floor_log2_lower\<close>, \<open>floor_log2_upper\<close>); an integer of magnitude at most
  \<open>2 ^ 53\<close> is a double, so rounding leaves it as it is (\<open>round_double_of_int\<close>);
  and the test for an infinity in \<open>round_double\<close> says that the rounded magnitude has
  reached \<open>2 powi 1024\<close> (\<open>round_double_overflow_iff\<close>).\<close>

declare ilog2.simps [simp del]

lemma ilog2_nonneg: "0 \<le> ilog2 n"
  by (induction n rule: ilog2.induct) (subst ilog2.simps, simp)

lemma ilog2_lower: "0 < n \<Longrightarrow> 2 ^ nat (ilog2 n) \<le> n"
proof (induction n rule: ilog2.induct)
  case (1 n)
  show ?case
  proof (cases "n < 2")
    case True
    with "1.prems" show ?thesis by (subst ilog2.simps) simp
  next
    case False
    then have "0 < n div 2" by simp
    with "1.IH" False have ih: "2 ^ nat (ilog2 (n div 2)) \<le> n div 2" by simp
    have "nat (1 + ilog2 (n div 2)) = Suc (nat (ilog2 (n div 2)))"
      using ilog2_nonneg [of "n div 2"] by simp
    then have "(2::int) ^ nat (1 + ilog2 (n div 2)) = 2 * 2 ^ nat (ilog2 (n div 2))"
      by simp
    also have "\<dots> \<le> 2 * (n div 2)" using ih by simp
    also have "\<dots> \<le> n" by simp
    finally show ?thesis using False by (subst ilog2.simps) simp
  qed
qed

lemma ilog2_upper: "n < 2 ^ nat (ilog2 n + 1)"
proof (induction n rule: ilog2.induct)
  case (1 n)
  show ?case
  proof (cases "n < 2")
    case True
    then show ?thesis by (subst ilog2.simps) simp
  next
    case False
    with "1.IH" have ih: "n div 2 < 2 ^ nat (ilog2 (n div 2) + 1)" by simp
    have "nat (1 + ilog2 (n div 2) + 1) = Suc (nat (ilog2 (n div 2) + 1))"
      using ilog2_nonneg [of "n div 2"] by simp
    then have "(2::int) ^ nat (1 + ilog2 (n div 2) + 1) = 2 * 2 ^ nat (ilog2 (n div 2) + 1)"
      by simp
    moreover have "n < 2 * (n div 2 + 1)" by simp
    moreover have "2 * (n div 2 + 1) \<le> 2 * 2 ^ nat (ilog2 (n div 2) + 1)"
      using ih by simp
    ultimately show ?thesis using False by (subst ilog2.simps) simp
  qed
qed

lemma floor_log2_lower:
  assumes "0 < x"
  shows "2 powi floor_log2 x \<le> x"
proof -
  obtain p q where pq: "quotient_of x = (p, q)" by (cases "quotient_of x")
  then have q: "0 < q" and x: "x = of_int p / of_int q"
    using quotient_of_denom_pos quotient_of_div by blast+
  with assms have p: "0 < p" by (simp add: zero_less_divide_iff)
  let ?d = "ilog2 p - ilog2 q"
  show ?thesis
  proof (cases "2 powi ?d \<le> x")
    case True
    then show ?thesis by (simp add: floor_log2_def pq)
  next
    case False
    have lp: "(2::rat) ^ nat (ilog2 p) \<le> of_int p"
      using ilog2_lower [OF p] by (metis of_int_le_iff of_int_numeral of_int_power)
    have uq: "of_int q < (2::rat) ^ nat (ilog2 q + 1)"
      using ilog2_upper [of q] by (metis of_int_less_iff of_int_numeral of_int_power)
    have "2 powi (?d - 1) = (2::rat) powi ilog2 p / 2 powi (ilog2 q + 1)"
      by (simp add: power_int_diff power_int_add)
    also have "\<dots> = 2 ^ nat (ilog2 p) / 2 ^ nat (ilog2 q + 1)"
      using ilog2_nonneg [of p] ilog2_nonneg [of q] by (simp add: power_int_def)
    also have "\<dots> \<le> of_int p / of_int q"
      using lp uq q p by (intro frac_le) simp_all
    finally have "2 powi (?d - 1) \<le> x" by (simp add: x)
    with False show ?thesis by (simp add: floor_log2_def pq)
  qed
qed

lemma floor_log2_upper:
  assumes "0 < x"
  shows "x < 2 powi (floor_log2 x + 1)"
proof -
  obtain p q where pq: "quotient_of x = (p, q)" by (cases "quotient_of x")
  then have q: "0 < q" and x: "x = of_int p / of_int q"
    using quotient_of_denom_pos quotient_of_div by blast+
  with assms have p: "0 < p" by (simp add: zero_less_divide_iff)
  let ?d = "ilog2 p - ilog2 q"
  show ?thesis
  proof (cases "2 powi ?d \<le> x")
    case True
    have up: "of_int p < (2::rat) ^ nat (ilog2 p + 1)"
      using ilog2_upper [of p] by (metis of_int_less_iff of_int_numeral of_int_power)
    have lq: "(2::rat) ^ nat (ilog2 q) \<le> of_int q"
      using ilog2_lower [OF q] by (metis of_int_le_iff of_int_numeral of_int_power)
    have "of_int p / of_int q < (2::rat) ^ nat (ilog2 p + 1) / 2 ^ nat (ilog2 q)"
      using up lq q p by (intro frac_less) simp_all
    also have "\<dots> = 2 powi (ilog2 p + 1) / 2 powi ilog2 q"
      using ilog2_nonneg [of p] ilog2_nonneg [of q] by (simp add: power_int_def)
    also have "\<dots> = 2 powi (?d + 1)"
      by (simp add: power_int_diff power_int_add)
    finally have "x < 2 powi (?d + 1)" by (simp add: x)
    with True show ?thesis by (simp add: floor_log2_def pq)
  next
    case False
    then show ?thesis by (simp add: floor_log2_def pq)
  qed
qed

lemma round_half_even_of_int: "round_half_even (of_int j) = j"
  by (simp add: round_half_even_def)

lemma round_double_exact:
  assumes "x \<noteq> 0"
    and "\<bar>x\<bar> / 2 powi (max (floor_log2 \<bar>x\<bar>) (- 1022) - 52) = of_int j"
    and "max (floor_log2 \<bar>x\<bar>) (- 1022) < 1023"
  shows "round_double x = Finite x"
proof -
  let ?e = "max (floor_log2 \<bar>x\<bar>) (- 1022)"
  let ?ulp = "(2::rat) powi (?e - 52)"
  have "of_int j * ?ulp = \<bar>x\<bar>"
    using assms(2) by (simp add: field_simps)
  then show ?thesis
    using assms by (auto simp: round_double_def Let_def round_half_even_of_int)
qed

lemma floor_log2_le:
  assumes "0 < x" and "x \<le> 2 powi k"
  shows "floor_log2 x \<le> k"
proof -
  have le: "(2::rat) powi floor_log2 x \<le> 2 powi k"
    using floor_log2_lower [OF assms(1)] assms(2) by simp
  show ?thesis
  proof (rule ccontr)
    assume "\<not> floor_log2 x \<le> k"
    then have "(2::rat) powi k < 2 powi floor_log2 x"
      by (intro power_int_strict_increasing) simp_all
    with le show False by simp
  qed
qed

lemma round_double_of_int:
  assumes "\<bar>n\<bar> \<le> 2 ^ 53"
  shows "round_double (of_int n) = Finite (of_int n)"
proof (cases "n = 0")
  case True
  then show ?thesis by (simp add: round_double_def)
next
  case False
  let ?x = "of_int n :: rat"
  let ?e = "max (floor_log2 \<bar>?x\<bar>) (- 1022)"
  have pos: "0 < \<bar>?x\<bar>" using False by simp
  have "\<bar>?x\<bar> \<le> 2 ^ 53"
    using assms by (metis of_int_abs of_int_le_iff of_int_numeral of_int_power)
  then have le: "\<bar>?x\<bar> \<le> 2 powi 53" by simp
  then have e53: "?e \<le> 53"
    using floor_log2_le [OF pos le] by simp
  have "\<exists>j. \<bar>?x\<bar> / 2 powi (?e - 52) = of_int j"
  proof (cases "?e \<le> 52")
    case True
    then have "(2::rat) powi (?e - 52) = 1 / 2 ^ nat (52 - ?e)"
      by (simp add: power_int_def field_simps)
    then have "\<bar>?x\<bar> / 2 powi (?e - 52) = of_int (\<bar>n\<bar> * 2 ^ nat (52 - ?e))"
      by simp
    then show ?thesis by blast
  next
    case False
    with e53 have e: "?e = 53" by simp
    then have "floor_log2 \<bar>?x\<bar> = 53" by (simp add: max_def split: if_splits)
    with floor_log2_lower [OF pos] le have "\<bar>?x\<bar> = 2 powi 53" by simp
    then have "\<bar>?x\<bar> / 2 powi (?e - 52) = of_int (2 ^ 52)"
      unfolding e by simp
    then show ?thesis by blast
  qed
  then obtain j where j: "\<bar>?x\<bar> / 2 powi (?e - 52) = of_int j" ..
  have nz: "?x \<noteq> 0" using False by simp
  have "?e < 1023" using e53 by simp
  with nz j show ?thesis by (rule round_double_exact)
qed

lemma round_half_even_le:
  assumes "y \<le> of_int k"
  shows "round_half_even y \<le> k"
proof -
  have "\<lfloor>y\<rfloor> \<le> k" using assms by linarith
  moreover have "\<lfloor>y\<rfloor> = k \<Longrightarrow> y = of_int k"
    using assms by linarith
  ultimately show ?thesis
    by (cases "\<lfloor>y\<rfloor> = k") (auto simp: round_half_even_def Let_def)
qed

lemma round_half_even_ge:
  assumes "of_int k \<le> y"
  shows "k \<le> round_half_even y"
proof -
  have "k \<le> \<lfloor>y\<rfloor>" using assms by (simp add: le_floor_iff)
  then show ?thesis
    by (auto simp: round_half_even_def Let_def)
qed

lemma pow2_units: "(2::rat) powi k * 2 powi (e - 52) = 2 powi (k + e - 52)"
  by (simp add: power_int_add [symmetric] algebra_simps)

lemma overflow_test:
  fixes m e E :: int
  assumes le: "m \<le> 2 ^ 53" and ge: "E \<le> e \<Longrightarrow> 2 ^ 52 \<le> m"
  shows "(E \<le> e \<or> (e = E - 1 \<and> m = 2 ^ 53)) \<longleftrightarrow>
           (2::rat) powi E \<le> of_int m * 2 powi (e - 52)"
proof -
  let ?ulp = "(2::rat) powi (e - 52)"
  have ulp: "0 < ?ulp" by simp
  have m53: "rat_of_int m \<le> 2 powi 53"
    using le by (metis of_int_le_iff of_int_numeral of_int_power power_int_numeral)
  consider (big) "E \<le> e" | (carry) "e = E - 1" "m = 2 ^ 53"
    | (top) "e = E - 1" "m \<noteq> 2 ^ 53" | (small) "e < E - 1"
    by linarith
  then show ?thesis
  proof cases
    case big
    from ge [OF big] have m52: "(2::rat) powi 52 \<le> of_int m"
      by (metis of_int_le_iff of_int_numeral of_int_power power_int_numeral)
    have "(2::rat) powi E \<le> 2 powi e"
      using big by (intro power_int_increasing) simp_all
    also have "\<dots> = 2 powi 52 * ?ulp"
      by (simp only: pow2_units) simp
    also have "\<dots> \<le> of_int m * ?ulp"
      using m52 ulp by (intro mult_right_mono) simp_all
    finally have "2 powi E \<le> of_int m * ?ulp" .
    with big show ?thesis by blast
  next
    case carry
    have "rat_of_int m = 2 powi 53"
      unfolding carry(2) by simp
    then have "of_int m * ?ulp = 2 powi 53 * ?ulp" by (simp only:)
    also have "\<dots> = 2 powi E"
      unfolding carry(1) by (simp only: pow2_units) simp
    finally have "2 powi E \<le> of_int m * ?ulp" by (simp only: order_refl)
    with carry show ?thesis by blast
  next
    case top
    with le have "m < 2 ^ 53" by simp
    then have "rat_of_int m < 2 powi 53"
      by (metis of_int_less_iff of_int_numeral of_int_power power_int_numeral)
    then have "of_int m * ?ulp < 2 powi 53 * ?ulp"
      using ulp by (intro mult_strict_right_mono) simp_all
    also have "\<dots> = 2 powi E"
      unfolding top(1) by (simp only: pow2_units) simp
    finally have "\<not> 2 powi E \<le> of_int m * ?ulp" by (simp only: not_le)
    moreover from top(1) have "\<not> E \<le> e" by linarith
    ultimately show ?thesis using top(2) by blast
  next
    case small
    have "of_int m * ?ulp \<le> 2 powi 53 * ?ulp"
      using m53 ulp by (intro mult_right_mono) simp_all
    also have "\<dots> = 2 powi (e + 1)"
      by (simp only: pow2_units) (simp add: add.commute)
    also have "\<dots> < 2 powi E"
      using small by (intro power_int_strict_increasing) simp_all
    finally have "\<not> 2 powi E \<le> of_int m * ?ulp" by (simp only: not_le)
    moreover from small have "\<not> E \<le> e" "e \<noteq> E - 1" by linarith+
    ultimately show ?thesis by blast
  qed
qed

lemma round_double_overflow_iff:
  assumes "x \<noteq> 0"
  shows "(round_double x = Infinity \<or> round_double x = NegInfinity) \<longleftrightarrow>
           (2::rat) powi 1024 \<le>
             of_int (round_half_even
                       (\<bar>x\<bar> / 2 powi (max (floor_log2 \<bar>x\<bar>) (- 1022) - 52)))
               * 2 powi (max (floor_log2 \<bar>x\<bar>) (- 1022) - 52)"
proof -
  let ?a = "\<bar>x\<bar>"
  let ?f = "floor_log2 ?a"
  let ?e = "max ?f (- 1022)"
  let ?ulp = "(2::rat) powi (?e - 52)"
  let ?m = "round_half_even (?a / ?ulp)"
  have pos: "0 < ?a" using assms by simp
  have ulp: "0 < ?ulp" by simp
  have lower: "2 powi ?f \<le> ?a" by (rule floor_log2_lower [OF pos])
  have upper: "?a < 2 powi (?f + 1)" by (rule floor_log2_upper [OF pos])
  have "(2::rat) powi (?f + 1) \<le> 2 powi (?e + 1)"
    by (intro power_int_increasing) simp_all
  with upper have "?a \<le> 2 powi (?e + 1)" by simp
  then have "?a / ?ulp \<le> 2 powi (?e + 1) / ?ulp"
    using ulp by (simp add: divide_right_mono)
  also have "\<dots> = 2 powi 53"
    by (simp flip: power_int_diff)
  finally have "?a / ?ulp \<le> of_int (2 ^ 53)" by simp
  then have m_le: "?m \<le> 2 ^ 53" by (rule round_half_even_le)
  have m_ge: "2 ^ 52 \<le> ?m" if "1024 \<le> ?e"
  proof -
    from that have "?e = ?f" by simp
    with lower have le: "2 powi ?e \<le> ?a" by (simp only:)
    have "2 powi 52 = 2 powi ?e / ?ulp"
      by (simp flip: power_int_diff)
    also have "\<dots> \<le> ?a / ?ulp"
      using le ulp by (intro divide_right_mono) simp_all
    finally have "of_int (2 ^ 52) \<le> ?a / ?ulp" by simp
    then show ?thesis by (rule round_half_even_ge)
  qed
  have "(round_double x = Infinity \<or> round_double x = NegInfinity) \<longleftrightarrow>
          (?e > 1023 \<or> (?e = 1023 \<and> ?m = 2 ^ 53))"
    using assms by (auto simp: round_double_def Let_def)
  also have "\<dots> \<longleftrightarrow> (1024 \<le> ?e \<or> (?e = 1024 - 1 \<and> ?m = 2 ^ 53))"
    by auto
  also have "\<dots> \<longleftrightarrow> (2::rat) powi 1024 \<le> of_int ?m * ?ulp"
    using m_le m_ge by (rule overflow_test)
  finally show ?thesis .
qed

text \<open>The product is rounded before \<^verbatim>\<open>toFixed\<close> sees it: 0.000000015 coins are 1
  satoshi, the product being the double just below 1.5, and not the 2 of exact
  arithmetic. An amount of whole satoshis comes out as written.\<close>

lemma toSatoshis_rounds_product: "toSatoshis (15 / 1000000000) = Finite 1"
  by code_simp

lemma toSatoshis_whole: "toSatoshis (12345678 / 100000000) = Finite 12345678"
  by code_simp

text \<open>The sum of the doubles nearest to 0.1 and 0.2 is the double that prints as
  0.30000000000000004.\<close>

lemma add_double_tenths:
  "add_double (read_double (1 / 10)) (read_double (2 / 10)) =
     Finite (5404319552844596 / 18014398509481984)"
  by code_simp

lemma safe_amount_int:
  assumes "safe_amount d"
  obtains n where "0 \<le> n" and "d = Finite (of_int n)"
proof (cases d)
  case (Finite x)
  with assms have x: "0 \<le> x \<and> of_int \<lfloor>x\<rfloor> = x"
    unfolding safe_amount_def by (simp only: double.case)
  then have "0 \<le> \<lfloor>x\<rfloor>" by simp
  moreover from x Finite have "d = Finite (of_int \<lfloor>x\<rfloor>)" by (simp only:)
  ultimately show thesis by (rule that)
qed (use assms in \<open>simp_all add: safe_amount_def\<close>)

lemma total_of_safe_amounts:
  assumes "list_all safe_amount ds" and "0 \<le> k"
    and "of_int k + sum_list (map amount_value ds) \<le> 2 ^ 53"
  shows "\<exists>t. 0 \<le> t \<and> of_int t = of_int k + sum_list (map amount_value ds)
           \<and> foldl add_double (Finite (of_int k)) ds = Finite (of_int t)"
  using assms
proof (induction ds arbitrary: k)
  case Nil
  then show ?case by auto
next
  case (Cons d ds)
  from Cons.prems(1) have "safe_amount d" and rest: "list_all safe_amount ds" by simp_all
  then obtain n where n: "0 \<le> n" and d: "d = Finite (of_int n)"
    by (auto elim: safe_amount_int)
  have nonneg: "0 \<le> sum_list (map amount_value ds)"
    using rest by (induction ds) (auto simp: safe_amount_def amount_value_def split: double.splits)
  have dv: "amount_value d = of_int n"
    by (simp add: d amount_value_def)
  from Cons.prems(3) have bound: "rat_of_int (k + n) + sum_list (map amount_value ds) \<le> 2 ^ 53"
    by (simp add: dv add.assoc)
  with nonneg have "rat_of_int (k + n) \<le> 2 ^ 53" by linarith
  then have "k + n \<le> 2 ^ 53"
    by (metis of_int_le_iff of_int_numeral of_int_power)
  with n Cons.prems(2) have "\<bar>k + n\<bar> \<le> 2 ^ 53" by simp
  then have step: "add_double (Finite (of_int k)) d = Finite (of_int (k + n))"
    using round_double_of_int [of "k + n"] by (simp add: d)
  from Cons.IH [OF rest _ bound] n Cons.prems(2)
  obtain t where "0 \<le> t" "of_int t = rat_of_int (k + n) + sum_list (map amount_value ds)"
    "foldl add_double (Finite (of_int (k + n))) ds = Finite (of_int t)"
    by auto
  then show ?case
    using step dv by (auto simp: add.assoc)
qed

lemma sub_safe_totals:
  assumes "0 \<le> i" "0 \<le> j" "rat_of_int i \<le> 2 ^ 53" "rat_of_int j \<le> 2 ^ 53"
  shows "sub_double (Finite (of_int i)) (Finite (of_int j)) = Finite (of_int (i - j))"
proof -
  from assms(3,4) have "i \<le> 2 ^ 53" "j \<le> 2 ^ 53"
    by (metis of_int_le_iff of_int_numeral of_int_power)+
  with assms(1,2) have "\<bar>i - j\<bar> \<le> 2 ^ 53" by simp
  then show ?thesis
    using round_double_of_int [of "i - j"] by (simp add: sub_double_def)
qed

lemma fee_fallback_zero:
  assumes "inputs \<noteq> []" and "outputs \<noteq> []"
  shows "fee_fallback (Finite 0) inputs outputs =
           (let difference =
                  sub_double (foldl add_double (Finite 0) (map in_amount inputs))
                             (foldl add_double (Finite 0) (map out_amount outputs))
            in if ge_zero difference then difference else Finite 0)"
  using assms by (simp add: fee_fallback_def foldl_map Let_def)

lemma fee_fallback_never_negative:
  assumes "inputs \<noteq> []" and "outputs \<noteq> []"
  shows "ge_zero (fee_fallback (Finite 0) inputs outputs)"
  using assms by (simp add: fee_fallback_def Let_def)

lemma fee_fallback_safe:
  assumes "inputs \<noteq> []" and "outputs \<noteq> []"
    and "safe_amounts (map in_amount inputs)" and "safe_amounts (map out_amount outputs)"
  shows "fee_fallback (Finite 0) inputs outputs = Finite (spec_fee inputs outputs)"
proof -
  from assms(3) total_of_safe_amounts [of "map in_amount inputs" 0]
  obtain i where i: "0 \<le> i" "rat_of_int i = sum_list (map amount_value (map in_amount inputs))"
    "foldl add_double (Finite 0) (map in_amount inputs) = Finite (of_int i)"
    by (auto simp: safe_amounts_def)
  from assms(4) total_of_safe_amounts [of "map out_amount outputs" 0]
  obtain j where j: "0 \<le> j" "rat_of_int j = sum_list (map amount_value (map out_amount outputs))"
    "foldl add_double (Finite 0) (map out_amount outputs) = Finite (of_int j)"
    by (auto simp: safe_amounts_def)
  from assms(3,4) i(2) j(2) have "rat_of_int i \<le> 2 ^ 53" "rat_of_int j \<le> 2 ^ 53"
    by (simp_all add: safe_amounts_def)
  with i(1) j(1) have diff: "sub_double (Finite (of_int i)) (Finite (of_int j)) = Finite (of_int (i - j))"
    by (rule sub_safe_totals)
  have "spec_fee inputs outputs = max 0 (rat_of_int i - rat_of_int j)"
    by (simp add: spec_fee_def i(2) j(2) comp_def)
  then show ?thesis
    using assms(1,2) i(3) j(3) diff
    by (auto simp: fee_fallback_zero Let_def max_def)
qed

subsection \<open>Fee resolution\<close>

text \<open>
  Claim C1, as stated: with an authoritative fee of 0 and non-empty lists the fee is the
  sum of the input amounts minus the sum of the output amounts, clamped at zero. It
  fails where a sum is not a double: for inputs of 90071992.54740992 and 0.00000001
  coins and one output of 90071992.54740992 coins the amounts are 9007199254740992
  (that is \<open>2 ^ 53\<close>) and 1 against 9007199254740992 satoshis; the route adds 1 to
  9007199254740992 and gets 9007199254740992 again, so its fee is 0, while the
  difference of the sums is 1.
\<close>

theorem fee_exact_difference_counterexample:
  "lookup_rpc ''Local Bitcoin Node'' ''ab''
     \<lparr>reply_ok = False, reply_status = 500, reply_error = True, reply_result = None\<rparr>
     \<lparr>reply_ok = True, reply_status = 200, reply_error = False,
      reply_result = Some
       \<lparr>rt_txid = ''ab'', rt_fee = None, rt_size = None,
        rt_vin = [\<lparr>ri_prevout = Some \<lparr>po_scriptPubKey = None,
                     po_scriptpubkey_address = None, po_scriptpubkey_type = None,
                     po_value = Some (9007199254740992 / 100000000)\<rparr>,
                   ri_txinwitness = None, ri_witness = None\<rparr>,
                  \<lparr>ri_prevout = Some \<lparr>po_scriptPubKey = None,
                     po_scriptpubkey_address = None, po_scriptpubkey_type = None,
                     po_value = Some (1 / 100000000)\<rparr>,
                   ri_txinwitness = None, ri_witness = None\<rparr>],
        rt_vout = [\<lparr>ro_scriptPubKey = None, ro_scriptpubkey_address = None,
                    ro_scriptpubkey_type = None, ro_scriptpubkey_asm = None,
                    ro_value = Some (9007199254740992 / 100000000)\<rparr>],
        rt_confirmations = None, rt_version = None, rt_locktime = None,
        rt_blockheight = None, rt_status = None\<rparr>\<rparr>
   = Inr (normalize_rpc_lookup ''Local Bitcoin Node'' ''ab'' (Finite 0) 0
       \<lparr>rt_txid = ''ab'', rt_fee = None, rt_size = None,
        rt_vin = [\<lparr>ri_prevout = Some \<lparr>po_scriptPubKey = None,
                     po_scriptpubkey_address = None, po_scriptpubkey_type = None,
                     po_value = Some (9007199254740992 / 100000000)\<rparr>,
                   ri_txinwitness = None, ri_witness = None\<rparr>,
                  \<lparr>ri_prevout = Some \<lparr>po_scriptPubKey = None,
                     po_scriptpubkey_address = None, po_scriptpubkey_type = None,
                     po_value = Some (1 / 100000000)\<rparr>,
                   ri_txinwitness = None, ri_witness = None\<rparr>],
        rt_vout = [\<lparr>ro_scriptPubKey = None, ro_scriptpubkey_address = None,
                    ro_scriptpubkey_type = None, ro_scriptpubkey_asm = None,
                    ro_value = Some (9007199254740992 / 100000000)\<rparr>],
        rt_confirmations = None, rt_version = None, rt_locktime = None,
        rt_blockheight = None, rt_status = None\<rparr>)
   \<and> map in_amount (tr_inputs (normalize_rpc_lookup ''Local Bitcoin Node'' ''ab'' (Finite 0) 0
       \<lparr>rt_txid = ''ab'', rt_fee = None, rt_size = None,
        rt_vin = [\<lparr>ri_prevout = Some \<lparr>po_scriptPubKey = None,
                     po_scriptpubkey_address = None, po_scriptpubkey_type = None,
                     po_value = Some (9007199254740992 / 100000000)\<rparr>,
                   ri_txinwitness = None, ri_witness = None\<rparr>,
                  \<lparr>ri_prevout = Some \<lparr>po_scriptPubKey = None,
                     po_scriptpubkey_address = None, po_scriptpubkey_type = None,
                     po_value = Some (1 / 100000000)\<rparr>,
                   ri_txinwitness = None, ri_witness = None\<rparr>],
        rt_vout = [\<lparr>ro_scriptPubKey = None, ro_scriptpubkey_address = None,
                    ro_scriptpubkey_type = None, ro_scriptpubkey_asm = None,
                    ro_value = Some (9007199254740992 / 100000000)\<rparr>],
        rt_confirmations = None, rt_version = None, rt_locktime = None,
        rt_blockheight = None, rt_status = None\<rparr>))
       = [Finite 9007199254740992, Finite 1]
   \<and> map out_amount (tr_outputs (normalize_rpc_lookup ''Local Bitcoin Node'' ''ab'' (Finite 0) 0
       \<lparr>rt_txid = ''ab'', rt_fee = None, rt_size = None,
        rt_vin = [\<lparr>ri_prevout = Some \<lparr>po_scriptPubKey = None,
                     po_scriptpubkey_address = None, po_scriptpubkey_type = None,
                     po_value = Some (9007199254740992 / 100000000)\<rparr>,
                   ri_txinwitness = None, ri_witness = None\<rparr>,
                  \<lparr>ri_prevout = Some \<lparr>po_scriptPubKey = None,
                     po_scriptpubkey_address = None, po_scriptpubkey_type = None,
                     po_value = Some (1 / 100000000)\<rparr>,
                   ri_txinwitness = None, ri_witness = None\<rparr>],
        rt_vout = [\<lparr>ro_scriptPubKey = None, ro_scriptpubkey_address = None,
                    ro_scriptpubkey_type = None, ro_scriptpubkey_asm = None,
                    ro_value = Some (9007199254740992 / 100000000)\<rparr>],
        rt_confirmations = None, rt_version = None, rt_locktime = None,
        rt_blockheight = None, rt_status = None\<rparr>))
       = [Finite 9007199254740992]
   \<and> tr_fee (normalize_rpc_lookup ''Local Bitcoin Node'' ''ab'' (Finite 0) 0
       \<lparr>rt_txid = ''ab'', rt_fee = None, rt_size = None,
        rt_vin = [\<lparr>ri_prevout = Some \<lparr>po_scriptPubKey = None,
                     po_scriptpubkey_address = None, po_scriptpubkey_type = None,
                     po_value = Some (9007199254740992 / 100000000)\<rparr>,
                   ri_txinwitness = None, ri_witness = None\<rparr>,
                  \<lparr>ri_prevout = Some \<lparr>po_scriptPubKey = None,
                     po_scriptpubkey_address = None, po_scriptpubkey_type = None,
                     po_value = Some (1 / 100000000)\<rparr>,
                   ri_txinwitness = None, ri_witness = None\<rparr>],
        rt_vout = [\<lparr>ro_scriptPubKey = None, ro_scriptpubkey_address = None,
                    ro_scriptpubkey_type = None, ro_scriptpubkey_asm = None,
                    ro_value = Some (9007199254740992 / 100000000)\<rparr>],
        rt_confirmations = None, rt_version = None, rt_locktime = None,
        rt_blockheight = None, rt_status = None\<rparr>)
       = Finite 0
   \<and> spec_fee
       (tr_inputs (normalize_rpc_lookup ''Local Bitcoin Node'' ''ab'' (Finite 0) 0
       \<lparr>rt_txid = ''ab'', rt_fee = None, rt_size = None,
        rt_vin = [\<lparr>ri_prevout = Some \<lparr>po_scriptPubKey = None,
                     po_scriptpubkey_address = None, po_scriptpubkey_type = None,
                     po_value = Some (9007199254740992 / 100000000)\<rparr>,
                   ri_txinwitness = None, ri_witness = None\<rparr>,
                  \<lparr>ri_prevout = Some \<lparr>po_scriptPubKey = None,
                     po_scriptpubkey_address = None, po_scriptpubkey_type = None,
                     po_value = Some (1 / 100000000)\<rparr>,
                   ri_txinwitness = None, ri_witness = None\<rparr>],
        rt_vout = [\<lparr>ro_scriptPubKey = None, ro_scriptpubkey_address = None,
                    ro_scriptpubkey_type = None, ro_scriptpubkey_asm = None,
                    ro_value = Some (9007199254740992 / 100000000)\<rparr>],
        rt_confirmations = None, rt_version = None, rt_locktime = None,
        rt_blockheight = None, rt_status = None\<rparr>))
       (tr_outputs (normalize_rpc_lookup ''Local Bitcoin Node'' ''ab'' (Finite 0) 0
       \<lparr>rt_txid = ''ab'', rt_fee = None, rt_size = None,
        rt_vin = [\<lparr>ri_prevout = Some \<lparr>po_scriptPubKey = None,
                     po_scriptpubkey_address = None, po_scriptpubkey_type = None,
                     po_value = Some (9007199254740992 / 100000000)\<rparr>,
                   ri_txinwitness = None, ri_witness = None\<rparr>,
                  \<lparr>ri_prevout = Some \<lparr>po_scriptPubKey = None,
                     po_scriptpubkey_address = None, po_scriptpubkey_type = None,
                     po_value = Some (1 / 100000000)\<rparr>,
                   ri_txinwitness = None, ri_witness = None\<rparr>],
        rt_vout = [\<lparr>ro_scriptPubKey = None, ro_scriptpubkey_address = None,
                    ro_scriptpubkey_type = None, ro_scriptpubkey_asm = None,
                    ro_value = Some (9007199254740992 / 100000000)\<rparr>],
        rt_confirmations = None, rt_version = None, rt_locktime = None,
        rt_blockheight = None, rt_status = None\<rparr>))
       = 1"
  by code_simp

text \<open>
  Claim C1, amended. On the node RPC paths (transaction lookup and the loop of the recent
  transactions), when the transaction was delivered, the fee of the mempool entry
  resolves to 0 and the transaction has at least one input and one output, a record is
  produced and its input and output lists are non-empty. Its fee is the sum of its input
  amounts minus the sum of its output amounts, each sum and the difference rounded as
  double arithmetic does, or 0 when that difference is not at least 0; it is never
  negative and never NaN. Where the amounts are non-negative integers and each of the
  two sums is at most \<open>2 ^ 53\<close>, the fee is the exact difference of the sums, or 0 when
  that is negative. No error value is returned.
\<close>

theorem fee_derived_and_clamped:
  assumes "reply_ok txResponse" and "\<not> reply_error txResponse"
    and "reply_result txResponse = Some tx"
    and "rt_vin tx \<noteq> []" and "rt_vout tx \<noteq> []"
  shows "(authoritative_fee (mempool_entry_of mempoolResponse) = Finite 0 \<longrightarrow>
           (\<exists>r. lookup_rpc source txid mempoolResponse txResponse = Inr r
              \<and> tr_inputs r \<noteq> [] \<and> tr_outputs r \<noteq> []
              \<and> tr_fee r =
                  (let difference =
                         sub_double (foldl add_double (Finite 0) (map in_amount (tr_inputs r)))
                                    (foldl add_double (Finite 0) (map out_amount (tr_outputs r)))
                   in if ge_zero difference then difference else Finite 0)
              \<and> ge_zero (tr_fee r)
              \<and> (safe_amounts (map in_amount (tr_inputs r))
                   \<and> safe_amounts (map out_amount (tr_outputs r))
                   \<longrightarrow> tr_fee r = Finite (spec_fee (tr_inputs r) (tr_outputs r)))))
       \<and> (authoritative_fee (mempool txid) = Finite 0 \<longrightarrow>
           (\<exists>r. recent_rpc_step source mempool txid txResponse = Some r
              \<and> tr_inputs r \<noteq> [] \<and> tr_outputs r \<noteq> []
              \<and> tr_fee r =
                  (let difference =
                         sub_double (foldl add_double (Finite 0) (map in_amount (tr_inputs r)))
                                    (foldl add_double (Finite 0) (map out_amount (tr_outputs r)))
                   in if ge_zero difference then difference else Finite 0)
              \<and> ge_zero (tr_fee r)
              \<and> (safe_amounts (map in_amount (tr_inputs r))
                   \<and> safe_amounts (map out_amount (tr_outputs r))
                   \<longrightarrow> tr_fee r = Finite (spec_fee (tr_inputs r) (tr_outputs r)))))"
proof (intro conjI impI)
  let ?ins = "map rpc_input (rt_vin tx)"
  have ne: "?ins \<noteq> []" "map rpc_lookup_output (rt_vout tx) \<noteq> []"
    "map rpc_recent_output (rt_vout tx) \<noteq> []"
    using assms(4,5) by simp_all
  {
    assume fee0: "authoritative_fee (mempool_entry_of mempoolResponse) = Finite 0"
    let ?outs = "map rpc_lookup_output (rt_vout tx)"
    let ?vsize = "case mempool_entry_of mempoolResponse of
                    None \<Rightarrow> 0 | Some e \<Rightarrow> num_or (me_vsize e) 0"
    let ?r = "normalize_rpc_lookup source txid (Finite 0) ?vsize tx"
    have r: "lookup_rpc source txid mempoolResponse txResponse = Inr ?r"
      using assms(1-3) fee0 by (simp add: lookup_rpc_def Let_def)
    have fields: "tr_inputs ?r = ?ins" "tr_outputs ?r = ?outs"
      "tr_fee ?r = fee_fallback (Finite 0) ?ins ?outs"
      by (simp_all only: normalize_rpc_lookup_fields)
    show "\<exists>r. lookup_rpc source txid mempoolResponse txResponse = Inr r
              \<and> tr_inputs r \<noteq> [] \<and> tr_outputs r \<noteq> []
              \<and> tr_fee r =
                  (let difference =
                         sub_double (foldl add_double (Finite 0) (map in_amount (tr_inputs r)))
                                    (foldl add_double (Finite 0) (map out_amount (tr_outputs r)))
                   in if ge_zero difference then difference else Finite 0)
              \<and> ge_zero (tr_fee r)
              \<and> (safe_amounts (map in_amount (tr_inputs r))
                   \<and> safe_amounts (map out_amount (tr_outputs r))
                   \<longrightarrow> tr_fee r = Finite (spec_fee (tr_inputs r) (tr_outputs r)))"
    proof (intro exI [of _ ?r] conjI impI)
      show "tr_fee ?r =
              (let difference =
                     sub_double (foldl add_double (Finite 0) (map in_amount (tr_inputs ?r)))
                                (foldl add_double (Finite 0) (map out_amount (tr_outputs ?r)))
               in if ge_zero difference then difference else Finite 0)"
        unfolding fields by (rule fee_fallback_zero [OF ne(1) ne(2)])
      show "ge_zero (tr_fee ?r)"
        unfolding fields by (rule fee_fallback_never_negative [OF ne(1) ne(2)])
      show "tr_fee ?r = Finite (spec_fee (tr_inputs ?r) (tr_outputs ?r))"
        if "safe_amounts (map in_amount (tr_inputs ?r))
            \<and> safe_amounts (map out_amount (tr_outputs ?r))"
        using that unfolding fields by (intro fee_fallback_safe [OF ne(1) ne(2)]) simp_all
    qed (use r ne in \<open>simp_all add: fields\<close>)
  }
  {
    assume fee0: "authoritative_fee (mempool txid) = Finite 0"
    let ?outs = "map rpc_recent_output (rt_vout tx)"
    let ?r = "normalize_rpc_recent source txid (mempool txid) tx"
    have r: "recent_rpc_step source mempool txid txResponse = Some ?r"
      using assms(1-3) by (simp add: recent_rpc_step_def)
    have fields: "tr_inputs ?r = ?ins" "tr_outputs ?r = ?outs"
      "tr_fee ?r = fee_fallback (Finite 0) ?ins ?outs"
      using fee0 by (simp_all only: normalize_rpc_recent_fields)
    show "\<exists>r. recent_rpc_step source mempool txid txResponse = Some r
              \<and> tr_inputs r \<noteq> [] \<and> tr_outputs r \<noteq> []
              \<and> tr_fee r =
                  (let difference =
                         sub_double (foldl add_double (Finite 0) (map in_amount (tr_inputs r)))
                                    (foldl add_double (Finite 0) (map out_amount (tr_outputs r)))
                   in if ge_zero difference then difference else Finite 0)
              \<and> ge_zero (tr_fee r)
              \<and> (safe_amounts (map in_amount (tr_inputs r))
                   \<and> safe_amounts (map out_amount (tr_outputs r))
                   \<longrightarrow> tr_fee r = Finite (spec_fee (tr_inputs r) (tr_outputs r)))"
    proof (intro exI [of _ ?r] conjI impI)
      show "tr_fee ?r =
              (let difference =
                     sub_double (foldl add_double (Finite 0) (map in_amount (tr_inputs ?r)))
                                (foldl add_double (Finite 0) (map out_amount (tr_outputs ?r)))
               in if ge_zero difference then difference else Finite 0)"
        unfolding fields by (rule fee_fallback_zero [OF ne(1) ne(3)])
      show "ge_zero (tr_fee ?r)"
        unfolding fields by (rule fee_fallback_never_negative [OF ne(1) ne(3)])
      show "tr_fee ?r = Finite (spec_fee (tr_inputs ?r) (tr_outputs ?r))"
        if "safe_amounts (map in_amount (tr_inputs ?r))
            \<and> safe_amounts (map out_amount (tr_outputs ?r))"
        using that unfolding fields by (intro fee_fallback_safe [OF ne(1) ne(3)]) simp_all
    qed (use r ne in \<open>simp_all add: fields\<close>)
  }
qed

theorem fee_derived_and_clamped_witness:
  "(\<exists>r. lookup_rpc ''Local Bitcoin Node'' ''ab''
          \<lparr>reply_ok = False, reply_status = 500, reply_error = True, reply_result = None\<rparr>
          \<lparr>reply_ok = True, reply_status = 200, reply_error = False,
           reply_result = Some
             \<lparr>rt_txid = ''ab'', rt_fee = None, rt_size = None,
              rt_vin = [\<lparr>ri_prevout = Some \<lparr>po_scriptPubKey = None,
                           po_scriptpubkey_address = None, po_scriptpubkey_type = None,
                           po_value = Some (5 / 1000000)\<rparr>,
                         ri_txinwitness = None, ri_witness = None\<rparr>],
              rt_vout = [\<lparr>ro_scriptPubKey = None, ro_scriptpubkey_address = None,
                          ro_scriptpubkey_type = None, ro_scriptpubkey_asm = None,
                          ro_value = Some (7 / 1000000)\<rparr>],
              rt_confirmations = None, rt_version = None, rt_locktime = None,
              rt_blockheight = None, rt_status = None\<rparr>\<rparr> = Inr r
      \<and> map in_amount (tr_inputs r) = [Finite 500]
      \<and> map out_amount (tr_outputs r) = [Finite 700]
      \<and> tr_fee r = Finite 0)
   \<and> (\<exists>r. recent_rpc_step ''Local Bitcoin Node'' Map.empty ''ab''
          \<lparr>reply_ok = True, reply_status = 200, reply_error = False,
           reply_result = Some
             \<lparr>rt_txid = ''ab'', rt_fee = None, rt_size = None,
              rt_vin = [\<lparr>ri_prevout = Some \<lparr>po_scriptPubKey = None,
                           po_scriptpubkey_address = None, po_scriptpubkey_type = None,
                           po_value = Some (5 / 1000000)\<rparr>,
                         ri_txinwitness = None, ri_witness = None\<rparr>],
              rt_vout = [\<lparr>ro_scriptPubKey = None, ro_scriptpubkey_address = None,
                          ro_scriptpubkey_type = None, ro_scriptpubkey_asm = None,
                          ro_value = Some (7 / 1000000)\<rparr>],
              rt_confirmations = None, rt_version = None, rt_locktime = None,
              rt_blockheight = None, rt_status = None\<rparr>\<rparr> = Some r
      \<and> map in_amount (tr_inputs r) = [Finite 500]
      \<and> map out_amount (tr_outputs r) = [Finite 700]
      \<and> tr_fee r = Finite 0)"
proof -
  let ?tx = "\<lparr>rt_txid = ''ab'', rt_fee = None, rt_size = None,
              rt_vin = [\<lparr>ri_prevout = Some \<lparr>po_scriptPubKey = None,
                           po_scriptpubkey_address = None, po_scriptpubkey_type = None,
                           po_value = Some (5 / 1000000)\<rparr>,
                         ri_txinwitness = None, ri_witness = None\<rparr>],
              rt_vout = [\<lparr>ro_scriptPubKey = None, ro_scriptpubkey_address = None,
                          ro_scriptpubkey_type = None, ro_scriptpubkey_asm = None,
                          ro_value = Some (7 / 1000000)\<rparr>],
              rt_confirmations = None, rt_version = None, rt_locktime = None,
              rt_blockheight = None, rt_status = None\<rparr>"
  let ?mp = "\<lparr>reply_ok = False, reply_status = 500, reply_error = True,
              reply_result = None :: MempoolEntry option\<rparr>"
  let ?reply = "\<lparr>reply_ok = True, reply_status = 200, reply_error = False,
                 reply_result = Some ?tx\<rparr>"
  let ?none = "Map.empty :: string \<rightharpoonup> MempoolEntry"
  have fee0: "authoritative_fee (mempool_entry_of ?mp) = Finite 0"
    "authoritative_fee (?none ''ab'') = Finite 0"
    by (simp_all add: authoritative_fee_def mempool_entry_of_def)
  have accepted: "reply_ok ?reply" "\<not> reply_error ?reply" "reply_result ?reply = Some ?tx"
    "rt_vin ?tx \<noteq> []" "rt_vout ?tx \<noteq> []"
    by simp_all
  from fee_derived_and_clamped [OF accepted, of ?mp "''Local Bitcoin Node''" "''ab''" ?none]
    fee0
  obtain r r' where r: "lookup_rpc ''Local Bitcoin Node'' ''ab'' ?mp ?reply = Inr r"
    and fee: "safe_amounts (map in_amount (tr_inputs r))
                \<and> safe_amounts (map out_amount (tr_outputs r))
              \<longrightarrow> tr_fee r = Finite (spec_fee (tr_inputs r) (tr_outputs r))"
    and r': "recent_rpc_step ''Local Bitcoin Node'' ?none ''ab'' ?reply = Some r'"
    and fee': "safe_amounts (map in_amount (tr_inputs r'))
                \<and> safe_amounts (map out_amount (tr_outputs r'))
               \<longrightarrow> tr_fee r' = Finite (spec_fee (tr_inputs r') (tr_outputs r'))"
    by blast
  let ?r = "normalize_rpc_lookup ''Local Bitcoin Node'' ''ab'' (Finite 0) 0 ?tx"
  let ?r' = "normalize_rpc_recent ''Local Bitcoin Node'' ''ab'' None ?tx"
  have "lookup_rpc ''Local Bitcoin Node'' ''ab'' ?mp ?reply = Inr ?r"
    by (simp add: lookup_rpc_def mempool_entry_of_def authoritative_fee_def)
  with r have req: "r = ?r" by simp
  have "recent_rpc_step ''Local Bitcoin Node'' ?none ''ab'' ?reply = Some ?r'"
    by (simp add: recent_rpc_step_def)
  with r' have req': "r' = ?r'" by simp
  have ins: "map in_amount (tr_inputs ?r) = [Finite 500]"
    by code_simp
  have outs: "map out_amount (tr_outputs ?r) = [Finite 700]"
    by code_simp
  have ins': "map in_amount (tr_inputs ?r') = [Finite 500]"
    by code_simp
  have outs': "map out_amount (tr_outputs ?r') = [Finite 700]"
    by code_simp
  have safe: "safe_amounts [Finite 500]" "safe_amounts [Finite 700]"
    by (simp_all add: safe_amounts_def safe_amount_def amount_value_def)
  have spec: "spec_fee (tr_inputs ?r) (tr_outputs ?r) = 0"
    "spec_fee (tr_inputs ?r') (tr_outputs ?r') = 0"
    by code_simp+
  have "tr_fee r = Finite 0" "tr_fee r' = Finite 0"
    using fee fee' safe spec unfolding req req' ins outs ins' outs' by simp_all
  with r r' ins outs ins' outs' show ?thesis
    unfolding req req' by simp
qed

subsection \<open>Wallet classification\<close>

text \<open>
  Claim C2. The wallet type is decided from the script types pooled from the inputs
  and the outputs, in the order Taproot (\<^verbatim>\<open>p2tr\<close>), SegWit (\<^verbatim>\<open>v0_p2wpkh\<close> or
  \<^verbatim>\<open>v0_p2wsh\<close>), Legacy (\<^verbatim>\<open>p2pkh\<close> or \<^verbatim>\<open>p2sh\<close>), the first match winning and
  \<^verbatim>\<open>Unknown\<close> otherwise. A pool with both \<^verbatim>\<open>p2pkh\<close> and \<^verbatim>\<open>p2tr\<close> is Taproot, a pool
  without any tag is Unknown, and each of the four normalisation paths classifies the
  inputs and outputs of its own record this way.
\<close>

theorem wallet_classification_precedence:
  "walletType_of (scriptTypes inputs outputs) =
     (let pooled = in_scriptType ` set inputs \<union> out_scriptType ` set outputs in
      if Some ''p2tr'' \<in> pooled then ''Taproot''
      else if Some ''v0_p2wpkh'' \<in> pooled \<or> Some ''v0_p2wsh'' \<in> pooled then ''SegWit''
      else if Some ''p2pkh'' \<in> pooled \<or> Some ''p2sh'' \<in> pooled then ''Legacy''
      else ''Unknown'')
   \<and> (Some ''p2pkh'' \<in> in_scriptType ` set inputs \<union> out_scriptType ` set outputs
        \<and> Some ''p2tr'' \<in> in_scriptType ` set inputs \<union> out_scriptType ` set outputs
        \<longrightarrow> walletType_of (scriptTypes inputs outputs) = ''Taproot'')
   \<and> ((\<forall>t. Some t \<notin> in_scriptType ` set inputs \<union> out_scriptType ` set outputs)
        \<longrightarrow> walletType_of (scriptTypes inputs outputs) = ''Unknown'')
   \<and> tr_walletType (normalize_rpc_lookup source txid fee vsize tx) =
       walletType_of (scriptTypes (tr_inputs (normalize_rpc_lookup source txid fee vsize tx))
                                  (tr_outputs (normalize_rpc_lookup source txid fee vsize tx)))
   \<and> tr_walletType (normalize_explorer_lookup source tx) =
       walletType_of (scriptTypes (tr_inputs (normalize_explorer_lookup source tx))
                                  (tr_outputs (normalize_explorer_lookup source tx)))
   \<and> tr_walletType (normalize_rpc_recent source txid entry tx) =
       walletType_of (scriptTypes (tr_inputs (normalize_rpc_recent source txid entry tx))
                                  (tr_outputs (normalize_rpc_recent source txid entry tx)))
   \<and> tr_walletType (normalize_explorer_recent source tx) =
       walletType_of (scriptTypes (tr_inputs (normalize_explorer_recent source tx))
                                  (tr_outputs (normalize_explorer_recent source tx)))"
proof -
  have main: "walletType_of (scriptTypes inputs outputs) =
     (let pooled = in_scriptType ` set inputs \<union> out_scriptType ` set outputs in
      if Some ''p2tr'' \<in> pooled then ''Taproot''
      else if Some ''v0_p2wpkh'' \<in> pooled \<or> Some ''v0_p2wsh'' \<in> pooled then ''SegWit''
      else if Some ''p2pkh'' \<in> pooled \<or> Some ''p2sh'' \<in> pooled then ''Legacy''
      else ''Unknown'')"
    unfolding walletType_of_def set_scriptTypes Let_def by simp
  have taproot: "Some ''p2pkh'' \<in> in_scriptType ` set inputs \<union> out_scriptType ` set outputs
        \<and> Some ''p2tr'' \<in> in_scriptType ` set inputs \<union> out_scriptType ` set outputs
        \<longrightarrow> walletType_of (scriptTypes inputs outputs) = ''Taproot''"
    unfolding main Let_def by simp
  have unknown: "(\<forall>t. Some t \<notin> in_scriptType ` set inputs \<union> out_scriptType ` set outputs)
        \<longrightarrow> walletType_of (scriptTypes inputs outputs) = ''Unknown''"
    unfolding main Let_def by simp
  show ?thesis
    by (intro conjI main taproot unknown normalizers_walletType)
qed

theorem wallet_classification_precedence_witness:
  "walletType_of (scriptTypes
      [\<lparr>in_address = None, in_amount = Finite 0, in_scriptType = Some ''p2pkh''\<rparr>]
      [\<lparr>out_address = None, out_amount = Finite 0, out_scriptType = Some ''p2tr'',
        out_opReturn = None\<rparr>]) = ''Taproot''
   \<and> walletType_of (scriptTypes
      [\<lparr>in_address = None, in_amount = Finite 0, in_scriptType = None\<rparr>] []) = ''Unknown''
   \<and> walletType_of (scriptTypes [] []) = ''Unknown''"
proof -
  let ?i = "\<lparr>in_address = None, in_amount = Finite 0, in_scriptType = Some ''p2pkh''\<rparr>"
  let ?o = "\<lparr>out_address = None, out_amount = Finite 0, out_scriptType = Some ''p2tr'',
        out_opReturn = None\<rparr>"
  let ?n = "\<lparr>in_address = None, in_amount = Finite 0, in_scriptType = None\<rparr>"
  have a: "walletType_of (scriptTypes [?i] [?o]) = ''Taproot''"
    using wallet_classification_precedence [of "[?i]" "[?o]"] by simp
  have b: "walletType_of (scriptTypes [?n] []) = ''Unknown''"
    using wallet_classification_precedence [of "[?n]" "[]"] by simp
  have c: "walletType_of (scriptTypes [] []) = ''Unknown''"
    using wallet_classification_precedence [of "[]" "[]"] by simp
  show ?thesis using a b c by simp
qed

subsection \<open>Status and confirmations\<close>

text \<open>
  Claim C3. The claim asks that a record is confirmed exactly when its confirmations
  are positive. The explorer branch of the lookup route takes the status from
  \<^verbatim>\<open>status.confirmed\<close> and the confirmations from \<^verbatim>\<open>status.confirmations\<close>, a field
  the explorer's status object does not carry: a confirmed transaction at block height
  800000 comes out as confirmed with 0 confirmations. The three sibling paths keep the
  two fields in step (\<open>rpc_status_iff_confirmations\<close>).
\<close>

theorem explorer_lookup_confirmed_without_confirmations:
  "tr_status (normalize_explorer_lookup ''Mempool.space''
      \<lparr>rt_txid = ''ab'', rt_fee = Some 250, rt_size = Some 110, rt_vin = [], rt_vout = [],
       rt_confirmations = None, rt_version = Some 2, rt_locktime = Some 0,
       rt_blockheight = None,
       rt_status = Some \<lparr>st_confirmed = True, st_block_height = Some 800000,
                          st_confirmations = None\<rparr>\<rparr>) = ''confirmed''
   \<and> tr_confirmations (normalize_explorer_lookup ''Mempool.space''
      \<lparr>rt_txid = ''ab'', rt_fee = Some 250, rt_size = Some 110, rt_vin = [], rt_vout = [],
       rt_confirmations = None, rt_version = Some 2, rt_locktime = Some 0,
       rt_blockheight = None,
       rt_status = Some \<lparr>st_confirmed = True, st_block_height = Some 800000,
                          st_confirmations = None\<rparr>\<rparr>) = 0"
  by (simp add: normalize_explorer_lookup_def status_confirmed_def status_field_def
        num_or_zero Let_def)

subsection \<open>OP_RETURN decoding\<close>

text \<open>
  Claim C4. The claim asks that a payload token that is not valid hex makes the decoder
  emit the whole disassembly. \<^verbatim>\<open>Buffer.from\<close> does not throw on such a token, so the
  \<^verbatim>\<open>catch\<close> branch is never taken (\<open>decode_payload_ignores_asm\<close>): the token \<^verbatim>\<open>zz\<close>
  yields the text \<^verbatim>\<open>zz\<close>, the odd-length token \<^verbatim>\<open>48656c6c6f7\<close> yields \<^verbatim>\<open>Hello\<close>, and
  the explorer's disassembly \<^verbatim>\<open>OP_RETURN OP_PUSHBYTES_5 48656c6c6f\<close> yields
  \<^verbatim>\<open>OP_PUSHBYTES_5\<close>; none is the disassembly.
\<close>

theorem malformed_payload_is_not_disassembly:
  "out_opReturn (rpc_lookup_output
      \<lparr>ro_scriptPubKey = Some \<lparr>spk_address = None, spk_type = Some ''nulldata'',
                                spk_asm = Some ''OP_RETURN zz''\<rparr>,
       ro_scriptpubkey_address = None, ro_scriptpubkey_type = None,
       ro_scriptpubkey_asm = None, ro_value = Some 0\<rparr>) = Some ''zz''
   \<and> out_opReturn (rpc_lookup_output
      \<lparr>ro_scriptPubKey = Some \<lparr>spk_address = None, spk_type = Some ''nulldata'',
                                spk_asm = Some ''OP_RETURN 48656c6c6f7''\<rparr>,
       ro_scriptpubkey_address = None, ro_scriptpubkey_type = None,
       ro_scriptpubkey_asm = None, ro_value = Some 0\<rparr>) = Some ''Hello''
   \<and> out_opReturn (explorer_lookup_output
      \<lparr>ro_scriptPubKey = None,
       ro_scriptpubkey_address = None, ro_scriptpubkey_type = Some ''nulldata'',
       ro_scriptpubkey_asm = Some ''OP_RETURN OP_PUSHBYTES_5 48656c6c6f'',
       ro_value = Some 0\<rparr>) = Some ''OP_PUSHBYTES_5''"
  by code_simp

text \<open>
  Claim C7, as stated: a text is emitted only if splitting the disassembly on whitespace
  yields the token \<^verbatim>\<open>OP_RETURN\<close> and a payload token. It fails for the disassembly
  made of \<^verbatim>\<open>OP_RETURN\<close>, a space and a tab: the route splits at the space, takes the
  tab for the payload and emits it, while the whitespace tokens are \<^verbatim>\<open>OP_RETURN\<close>
  alone.
\<close>

theorem opReturn_whitespace_counterexample:
  "out_opReturn (rpc_lookup_output
      \<lparr>ro_scriptPubKey = Some \<lparr>spk_address = None, spk_type = Some ''nulldata'',
                                spk_asm = Some (''OP_RETURN '' @ [CHR 0x09])\<rparr>,
       ro_scriptpubkey_address = None, ro_scriptpubkey_type = None,
       ro_scriptpubkey_asm = None, ro_value = Some 0\<rparr>) = Some [CHR 0x09]
   \<and> whitespace_tokens (''OP_RETURN '' @ [CHR 0x09]) = [''OP_RETURN'']"
  by code_simp

text \<open>
  Claim C7, amended. An OP_RETURN text is emitted only if, and in fact exactly when, the
  script type is \<^verbatim>\<open>nulldata\<close>, the disassembly is there, and splitting it at every
  single space character gives a first piece that is literally \<^verbatim>\<open>OP_RETURN\<close> and a
  second piece that is not empty; all four output callbacks decode this way. The
  disassembly \<^verbatim>\<open>OP_RETURN 48656c6c6f\<close> gives the text \<^verbatim>\<open>Hello\<close>, and \<^verbatim>\<open>OP_RETURN\<close>
  alone gives no text.
\<close>

theorem opReturn_needs_marker_and_payload:
  "(opReturn_of ty asm_opt \<noteq> None \<longleftrightarrow>
      ty = Some ''nulldata''
      \<and> (\<exists>asm hex. asm_opt = Some asm
            \<and> at_index (split_on CHR '' '' asm) 0 = Some ''OP_RETURN''
            \<and> at_index (split_on CHR '' '' asm) 1 = Some hex \<and> hex \<noteq> []))
   \<and> out_opReturn (rpc_lookup_output output) =
       opReturn_of (output_spk output spk_type) (output_spk output spk_asm)
   \<and> out_opReturn (rpc_recent_output output) =
       opReturn_of (output_spk output spk_type) (output_spk output spk_asm)
   \<and> out_opReturn (explorer_lookup_output output) =
       opReturn_of (ro_scriptpubkey_type output) (ro_scriptpubkey_asm output)
   \<and> out_opReturn (explorer_recent_output output) =
       opReturn_of (ro_scriptpubkey_type output) (ro_scriptpubkey_asm output)
   \<and> opReturn_of (Some ''nulldata'') (Some ''OP_RETURN 48656c6c6f'') = Some ''Hello''
   \<and> opReturn_of (Some ''nulldata'') (Some ''OP_RETURN'') = None"
proof -
  have "opReturn_of ty asm_opt \<noteq> None \<longleftrightarrow>
      ty = Some ''nulldata''
      \<and> (\<exists>asm hex. asm_opt = Some asm
            \<and> at_index (split_on CHR '' '' asm) 0 = Some ''OP_RETURN''
            \<and> at_index (split_on CHR '' '' asm) 1 = Some hex \<and> hex \<noteq> [])"
    using opReturn_of_Some_iff [of ty asm_opt] by auto
  moreover have "opReturn_of (Some ''nulldata'') (Some ''OP_RETURN 48656c6c6f'') = Some ''Hello''"
    by code_simp
  moreover have "opReturn_of (Some ''nulldata'') (Some ''OP_RETURN'') = None"
    by code_simp
  ultimately show ?thesis
    by (simp add: rpc_lookup_output_def rpc_recent_output_def explorer_lookup_output_def
          explorer_recent_output_def)
qed

theorem opReturn_needs_marker_and_payload_witness:
  "out_opReturn (rpc_lookup_output
      \<lparr>ro_scriptPubKey = Some \<lparr>spk_address = None, spk_type = Some ''nulldata'',
                                spk_asm = Some ''OP_RETURN 48656c6c6f''\<rparr>,
       ro_scriptpubkey_address = None, ro_scriptpubkey_type = None,
       ro_scriptpubkey_asm = None, ro_value = Some 0\<rparr>) = Some ''Hello''
   \<and> rpc_lookup_output
      \<lparr>ro_scriptPubKey = Some \<lparr>spk_address = None, spk_type = Some ''nulldata'',
                                spk_asm = Some ''OP_RETURN''\<rparr>,
       ro_scriptpubkey_address = None, ro_scriptpubkey_type = None,
       ro_scriptpubkey_asm = None, ro_value = Some 0\<rparr> =
     \<lparr>out_address = None, out_amount = Finite 0, out_scriptType = Some ''nulldata'',
      out_opReturn = None\<rparr>"
proof -
  let ?hello = "\<lparr>ro_scriptPubKey = Some \<lparr>spk_address = None, spk_type = Some ''nulldata'',
                                spk_asm = Some ''OP_RETURN 48656c6c6f''\<rparr>,
       ro_scriptpubkey_address = None, ro_scriptpubkey_type = None,
       ro_scriptpubkey_asm = None, ro_value = Some 0\<rparr>"
  let ?bare = "\<lparr>ro_scriptPubKey = Some \<lparr>spk_address = None, spk_type = Some ''nulldata'',
                                spk_asm = Some ''OP_RETURN''\<rparr>,
       ro_scriptpubkey_address = None, ro_scriptpubkey_type = None,
       ro_scriptpubkey_asm = None, ro_value = Some 0\<rparr>"
  have "out_opReturn (rpc_lookup_output ?hello) = Some ''Hello''"
    using opReturn_needs_marker_and_payload [of None None ?hello]
    by (simp add: output_spk_def)
  moreover have "out_opReturn (rpc_lookup_output ?bare) = None"
    using opReturn_needs_marker_and_payload [of None None ?bare]
    by (simp add: output_spk_def)
  moreover have "out_address (rpc_lookup_output ?bare) = None"
    "out_amount (rpc_lookup_output ?bare) = Finite 0"
    "out_scriptType (rpc_lookup_output ?bare) = Some ''nulldata''"
    by (simp_all add: rpc_lookup_output_def output_spk_def str_or_undefined_def str_or_def
          truthy_str_def scaled_output_amount_def double_or_zero_def toSatoshis_zero)
  ultimately show ?thesis
    by (cases "rpc_lookup_output ?bare") simp
qed

subsection \<open>Witness accounting\<close>

text \<open>
  Claim C5, as stated: the byte size is the sum over all stack elements of half the
  element's hex length, rounded up. It fails for a stack of two one-character elements:
  the route joins them first and counts 1 byte, the element-wise sum is 2.
\<close>

theorem witness_bytes_per_element_counterexample:
  "w_size (tr_witness (normalize_rpc_lookup ''Local Bitcoin Node'' ''ab'' (Finite 0) 0
      \<lparr>rt_txid = ''ab'', rt_fee = None, rt_size = None,
       rt_vin = [\<lparr>ri_prevout = None, ri_txinwitness = Some [''a'', ''b''],
                  ri_witness = None\<rparr>],
       rt_vout = [], rt_confirmations = None, rt_version = None, rt_locktime = None,
       rt_blockheight = None, rt_status = None\<rparr>)) = 1
   \<and> spec_witness_bytes [Some [''a'', ''b'']] = 2"
  by (simp add: normalizers_witness witness_of_def witness_size_sum spec_witness_bytes_def
        ceil_half_eq)

text \<open>
  Claim C5, amended. On the node RPC lookup path the item count is the sum of the
  stack lengths, an input without a stack counting 0, and the byte size is the sum over
  the inputs of half the length of the input's joined stack, rounded up. Where every
  element has an even hex length this is the element-wise sum of the specification.
  The computation has no failure path.
\<close>

theorem witness_accounting:
  "w_count (tr_witness (normalize_rpc_lookup source txid fee vsize tx)) =
     sum_list (map (\<lambda>input. case ri_txinwitness input of
                                None \<Rightarrow> 0
                              | Some items \<Rightarrow> length items) (rt_vin tx))
   \<and> w_size (tr_witness (normalize_rpc_lookup source txid fee vsize tx)) =
     sum_list (map (\<lambda>input. case ri_txinwitness input of
                                None \<Rightarrow> 0
                              | Some items \<Rightarrow> ceil_half (length (concat items))) (rt_vin tx))
   \<and> ((\<forall>input\<in>set (rt_vin tx). \<forall>items. ri_txinwitness input = Some items
           \<longrightarrow> (\<forall>item\<in>set items. even (length item)))
        \<longrightarrow> w_size (tr_witness (normalize_rpc_lookup source txid fee vsize tx)) =
              spec_witness_bytes (map ri_txinwitness (rt_vin tx)))"
proof -
  have "(\<forall>input\<in>set (rt_vin tx). \<forall>items. ri_txinwitness input = Some items
           \<longrightarrow> (\<forall>item\<in>set items. even (length item)))
        \<longrightarrow> witness_size (map ri_txinwitness (rt_vin tx)) =
              spec_witness_bytes (map ri_txinwitness (rt_vin tx))"
  proof (intro impI witness_size_even ballI allI)
    fix stack items item
    assume all: "\<forall>input\<in>set (rt_vin tx). \<forall>items. ri_txinwitness input = Some items
                   \<longrightarrow> (\<forall>item\<in>set items. even (length item))"
      and stack: "stack \<in> set (map ri_txinwitness (rt_vin tx))"
      and items: "stack = Some items" and item: "item \<in> set items"
    from stack obtain input where "input \<in> set (rt_vin tx)" and "ri_txinwitness input = stack"
      by auto
    with all items item show "even (length item)"
      by blast
  qed
  then show ?thesis
    by (simp add: normalizers_witness witness_of_def witness_count_sum witness_size_sum
          comp_def)
qed

theorem witness_accounting_witness:
  "tr_witness (normalize_rpc_lookup ''Local Bitcoin Node'' ''ab'' (Finite 0) 0
      \<lparr>rt_txid = ''ab'', rt_fee = None, rt_size = None,
       rt_vin = [\<lparr>ri_prevout = None, ri_txinwitness = Some [''ab'', ''cdef''],
                  ri_witness = None\<rparr>],
       rt_vout = [], rt_confirmations = None, rt_version = None, rt_locktime = None,
       rt_blockheight = None, rt_status = None\<rparr>) = \<lparr>w_count = 2, w_size = 3\<rparr>
   \<and> spec_witness_bytes [Some [''ab'', ''cdef'']] = 3"
proof -
  let ?tx = "\<lparr>rt_txid = ''ab'', rt_fee = None, rt_size = None,
       rt_vin = [\<lparr>ri_prevout = None, ri_txinwitness = Some [''ab'', ''cdef''],
                  ri_witness = None\<rparr>],
       rt_vout = [], rt_confirmations = None, rt_version = None, rt_locktime = None,
       rt_blockheight = None, rt_status = None\<rparr>"
  have even: "\<forall>input\<in>set (rt_vin ?tx). \<forall>items. ri_txinwitness input = Some items
           \<longrightarrow> (\<forall>item\<in>set items. even (length item))"
    by simp
  from witness_accounting [of "''Local Bitcoin Node''" "''ab''" "Finite 0" 0 ?tx] even
  have "w_count (tr_witness (normalize_rpc_lookup ''Local Bitcoin Node'' ''ab'' (Finite 0) 0 ?tx)) = 2"
    and "w_size (tr_witness (normalize_rpc_lookup ''Local Bitcoin Node'' ''ab'' (Finite 0) 0 ?tx)) = 3"
    and "w_size (tr_witness (normalize_rpc_lookup ''Local Bitcoin Node'' ''ab'' (Finite 0) 0 ?tx)) =
           spec_witness_bytes [Some [''ab'', ''cdef'']]"
    by (simp_all add: ceil_half_eq)
  then show ?thesis
    by (cases "tr_witness (normalize_rpc_lookup ''Local Bitcoin Node'' ''ab'' (Finite 0) 0 ?tx)") simp
qed

text \<open>
  Claim C8. On every path, a witness record with item count 0 has byte size 0.
\<close>

theorem empty_witness_has_no_bytes:
  "(w_count (tr_witness (normalize_rpc_lookup source txid fee vsize tx)) = 0
      \<longrightarrow> w_size (tr_witness (normalize_rpc_lookup source txid fee vsize tx)) = 0)
   \<and> (w_count (tr_witness (normalize_explorer_lookup source tx)) = 0
      \<longrightarrow> w_size (tr_witness (normalize_explorer_lookup source tx)) = 0)
   \<and> (w_count (tr_witness (normalize_rpc_recent source txid entry tx)) = 0
      \<longrightarrow> w_size (tr_witness (normalize_rpc_recent source txid entry tx)) = 0)
   \<and> (w_count (tr_witness (normalize_explorer_recent source tx)) = 0
      \<longrightarrow> w_size (tr_witness (normalize_explorer_recent source tx)) = 0)"
  by (simp add: normalizers_witness witness_of_def witness_count_zero)

theorem empty_witness_has_no_bytes_witness:
  "tr_witness (normalize_rpc_lookup ''Local Bitcoin Node'' ''ab'' (Finite 0) 0
      \<lparr>rt_txid = ''ab'', rt_fee = None, rt_size = None,
       rt_vin = [\<lparr>ri_prevout = None, ri_txinwitness = Some [], ri_witness = None\<rparr>,
                 \<lparr>ri_prevout = None, ri_txinwitness = None, ri_witness = None\<rparr>],
       rt_vout = [], rt_confirmations = None, rt_version = None, rt_locktime = None,
       rt_blockheight = None, rt_status = None\<rparr>) = \<lparr>w_count = 0, w_size = 0\<rparr>
   \<and> tr_witness (normalize_explorer_lookup ''Local Bitcoin Node''
      \<lparr>rt_txid = ''ab'', rt_fee = None, rt_size = None,
       rt_vin = [\<lparr>ri_prevout = None, ri_txinwitness = Some [], ri_witness = None\<rparr>,
                 \<lparr>ri_prevout = None, ri_txinwitness = None, ri_witness = None\<rparr>],
       rt_vout = [], rt_confirmations = None, rt_version = None, rt_locktime = None,
       rt_blockheight = None, rt_status = None\<rparr>) = \<lparr>w_count = 0, w_size = 0\<rparr>
   \<and> tr_witness (normalize_rpc_recent ''Local Bitcoin Node'' ''ab'' None
      \<lparr>rt_txid = ''ab'', rt_fee = None, rt_size = None,
       rt_vin = [\<lparr>ri_prevout = None, ri_txinwitness = Some [], ri_witness = None\<rparr>,
                 \<lparr>ri_prevout = None, ri_txinwitness = None, ri_witness = None\<rparr>],
       rt_vout = [], rt_confirmations = None, rt_version = None, rt_locktime = None,
       rt_blockheight = None, rt_status = None\<rparr>) = \<lparr>w_count = 0, w_size = 0\<rparr>
   \<and> tr_witness (normalize_explorer_recent ''Local Bitcoin Node''
      \<lparr>rt_txid = ''ab'', rt_fee = None, rt_size = None,
       rt_vin = [\<lparr>ri_prevout = None, ri_txinwitness = Some [], ri_witness = None\<rparr>,
                 \<lparr>ri_prevout = None, ri_txinwitness = None, ri_witness = None\<rparr>],
       rt_vout = [], rt_confirmations = None, rt_version = None, rt_locktime = None,
       rt_blockheight = None, rt_status = None\<rparr>) = \<lparr>w_count = 0, w_size = 0\<rparr>"
proof -
  let ?tx = "\<lparr>rt_txid = ''ab'', rt_fee = None, rt_size = None,
       rt_vin = [\<lparr>ri_prevout = None, ri_txinwitness = Some [], ri_witness = None\<rparr>,
                 \<lparr>ri_prevout = None, ri_txinwitness = None, ri_witness = None\<rparr>],
       rt_vout = [], rt_confirmations = None, rt_version = None, rt_locktime = None,
       rt_blockheight = None, rt_status = None\<rparr>"
  let ?a = "tr_witness (normalize_rpc_lookup ''Local Bitcoin Node'' ''ab'' (Finite 0) 0 ?tx)"
  let ?b = "tr_witness (normalize_explorer_lookup ''Local Bitcoin Node'' ?tx)"
  let ?c = "tr_witness (normalize_rpc_recent ''Local Bitcoin Node'' ''ab'' None ?tx)"
  let ?d = "tr_witness (normalize_explorer_recent ''Local Bitcoin Node'' ?tx)"
  have count: "w_count ?a = 0" "w_count ?b = 0" "w_count ?c = 0" "w_count ?d = 0"
    by (simp_all add: normalizers_witness witness_of_def witness_count_def arr_or_def)
  with empty_witness_has_no_bytes
         [of "''Local Bitcoin Node''" "''ab''" "Finite 0" 0 ?tx None]
  have size: "w_size ?a = 0" "w_size ?b = 0" "w_size ?c = 0" "w_size ?d = 0"
    by simp_all
  have "?a = \<lparr>w_count = 0, w_size = 0\<rparr>"
    using count(1) size(1) by (cases ?a) simp
  moreover have "?b = \<lparr>w_count = 0, w_size = 0\<rparr>"
    using count(2) size(2) by (cases ?b) simp
  moreover have "?c = \<lparr>w_count = 0, w_size = 0\<rparr>"
    using count(3) size(3) by (cases ?c) simp
  moreover have "?d = \<lparr>w_count = 0, w_size = 0\<rparr>"
    using count(4) size(4) by (cases ?d) simp
  ultimately show ?thesis by simp
qed

subsection \<open>Explorer payloads\<close>

text \<open>
  Claim C6. The claim asks that an explorer payload with \<^verbatim>\<open>status.confirmed = false\<close>
  yields a pending record without block height. Both explorer branches copy
  \<^verbatim>\<open>status.block_height\<close> without looking at \<^verbatim>\<open>confirmed\<close>, which the node RPC branch
  of the recent-transactions route does look at: a status with \<^verbatim>\<open>confirmed\<close> false and
  \<^verbatim>\<open>block_height\<close> 800000 comes out as a pending record at block height 800000. On a
  status that carries neither a block height nor confirmations the record is as the
  claim says (\<open>explorer_unconfirmed_ordinary_payload\<close>).
\<close>

theorem explorer_pending_record_carries_block_height:
  "tr_status (normalize_explorer_recent ''Mempool.space''
      \<lparr>rt_txid = ''ab'', rt_fee = None, rt_size = None, rt_vin = [], rt_vout = [],
       rt_confirmations = None, rt_version = None, rt_locktime = None,
       rt_blockheight = None,
       rt_status = Some \<lparr>st_confirmed = False, st_block_height = Some 800000,
                          st_confirmations = None\<rparr>\<rparr>) = ''pending''
   \<and> tr_blockheight (normalize_explorer_recent ''Mempool.space''
      \<lparr>rt_txid = ''ab'', rt_fee = None, rt_size = None, rt_vin = [], rt_vout = [],
       rt_confirmations = None, rt_version = None, rt_locktime = None,
       rt_blockheight = None,
       rt_status = Some \<lparr>st_confirmed = False, st_block_height = Some 800000,
                          st_confirmations = None\<rparr>\<rparr>) = Some 800000
   \<and> tr_status (normalize_explorer_lookup ''Mempool.space''
      \<lparr>rt_txid = ''ab'', rt_fee = None, rt_size = None, rt_vin = [], rt_vout = [],
       rt_confirmations = None, rt_version = None, rt_locktime = None,
       rt_blockheight = None,
       rt_status = Some \<lparr>st_confirmed = False, st_block_height = Some 800000,
                          st_confirmations = None\<rparr>\<rparr>) = ''pending''
   \<and> tr_blockheight (normalize_explorer_lookup ''Mempool.space''
      \<lparr>rt_txid = ''ab'', rt_fee = None, rt_size = None, rt_vin = [], rt_vout = [],
       rt_confirmations = None, rt_version = None, rt_locktime = None,
       rt_blockheight = None,
       rt_status = Some \<lparr>st_confirmed = False, st_block_height = Some 800000,
                          st_confirmations = None\<rparr>\<rparr>) = Some 800000"
  by (simp add: normalize_explorer_recent_def normalize_explorer_lookup_def status_field_def
        status_confirmed_def Let_def)

text \<open>
  Claim C10. On the explorer branch of the recent-transactions route the confirmations
  are 1 when \<^verbatim>\<open>status.confirmed\<close> is true and 0 otherwise (also without a status);
  the depth fields of the payload have no influence on them.
\<close>

theorem explorer_recent_confirmations_flag:
  "tr_confirmations (normalize_explorer_recent source tx) =
     (case rt_status tx of None \<Rightarrow> 0 | Some st \<Rightarrow> if st_confirmed st then 1 else 0)
   \<and> tr_confirmations
       (normalize_explorer_recent source
          (tx\<lparr>rt_confirmations := depth,
              rt_status := map_option (\<lambda>st. st\<lparr>st_confirmations := depth'\<rparr>) (rt_status tx)\<rparr>)) =
     tr_confirmations (normalize_explorer_recent source tx)"
  by (simp add: normalize_explorer_recent_def status_confirmed_def Let_def split: option.splits)

theorem explorer_recent_confirmations_flag_witness:
  "tr_confirmations (normalize_explorer_recent ''Mempool.space''
      \<lparr>rt_txid = ''ab'', rt_fee = None, rt_size = None, rt_vin = [], rt_vout = [],
       rt_confirmations = Some 6, rt_version = None, rt_locktime = None,
       rt_blockheight = None,
       rt_status = Some \<lparr>st_confirmed = True, st_block_height = Some 800000,
                          st_confirmations = Some 6\<rparr>\<rparr>) = 1
   \<and> tr_confirmations (normalize_explorer_recent ''Mempool.space''
      \<lparr>rt_txid = ''ab'', rt_fee = None, rt_size = None, rt_vin = [], rt_vout = [],
       rt_confirmations = Some 6, rt_version = None, rt_locktime = None,
       rt_blockheight = None, rt_status = None\<rparr>) = 0"
  using explorer_recent_confirmations_flag [of "''Mempool.space''"
      "\<lparr>rt_txid = ''ab'', rt_fee = None, rt_size = None, rt_vin = [], rt_vout = [],
       rt_confirmations = Some 6, rt_version = None, rt_locktime = None,
       rt_blockheight = None,
       rt_status = Some \<lparr>st_confirmed = True, st_block_height = Some 800000,
                          st_confirmations = Some 6\<rparr>\<rparr>"]
    explorer_recent_confirmations_flag [of "''Mempool.space''"
      "\<lparr>rt_txid = ''ab'', rt_fee = None, rt_size = None, rt_vin = [], rt_vout = [],
       rt_confirmations = Some 6, rt_version = None, rt_locktime = None,
       rt_blockheight = None, rt_status = None\<rparr>"]
  by simp

subsection \<open>Mempool summary\<close>

text \<open>
  Claim C9. For an accepted node RPC summary reply the record has the \<^verbatim>\<open>size\<close> of the
  result as count and its \<^verbatim>\<open>bytes\<close> as virtual size, each 0 when absent, and a total
  fee of 0.
\<close>

theorem rpc_summary_fields:
  assumes "response_ok" and "data = Some d" and "sd_result d = Some mempoolInfo"
  shows "mempool_summary source True response_ok response_status data =
           Inr \<lparr>ms_count = (case mi_size mempoolInfo of None \<Rightarrow> 0 | Some n \<Rightarrow> n),
                ms_total_fee = 0,
                ms_vsize = (case mi_bytes mempoolInfo of None \<Rightarrow> 0 | Some n \<Rightarrow> n),
                ms_source = source\<rparr>"
  using assms by (simp add: mempool_summary_def num_or_zero)

theorem rpc_summary_fields_witness:
  "mempool_summary ''Local Bitcoin Node'' True True 200
     (Some \<lparr>sd_result = Some \<lparr>mi_size = Some 42, mi_bytes = None\<rparr>, sd_count = Some 7,
            sd_total_fee = Some 9, sd_vsize = Some 11\<rparr>) =
   Inr \<lparr>ms_count = 42, ms_total_fee = 0, ms_vsize = 0, ms_source = ''Local Bitcoin Node''\<rparr>"
  using rpc_summary_fields [of True
      "Some \<lparr>sd_result = Some \<lparr>mi_size = Some 42, mi_bytes = None\<rparr>, sd_count = Some 7,
            sd_total_fee = Some 9, sd_vsize = Some 11\<rparr>"
      "\<lparr>sd_result = Some \<lparr>mi_size = Some 42, mi_bytes = None\<rparr>, sd_count = Some 7,
            sd_total_fee = Some 9, sd_vsize = Some 11\<rparr>"
      "\<lparr>mi_size = Some 42, mi_bytes = None\<rparr>" "''Local Bitcoin Node''" 200]
  by simp

end
